theory Spec2Isabelle
  imports Complex_Main "HOL-Library.Option_ord"
begin

section \<open>Vitals classification in the client: \<open>getVitalStatus\<close> and the per-vital badges\<close>

text \<open>
  The React components \<open>PatientModal\<close>, \<open>DashboardOverview\<close>, \<open>AdminPanel\<close>,
  \<open>PatientManagement\<close> and \<open>PatientPortal\<close> each declare the same arrow function
  \<^verbatim>\<open>
  const getVitalStatus = (systolic: number, diastolic: number, sugar: number) => {
    if (systolic > 140 || diastolic > 90 || sugar > 200) {
      return { status: 'Critical', variant: 'destructive' as const };
    }
    if (systolic > 120 || diastolic > 80 || sugar > 140) {
      return { status: 'Warning', variant: 'secondary' as const };
    }
    return { status: 'Normal', variant: 'default' as const };
  };
  \<close>
  JavaScript numbers are modelled as reals: the arguments are the integer and \<open>real\<close>
  columns of a stored patient, so they are finite and a comparison with a threshold is
  the comparison of the numbers denoted. \<open>NaN\<close> is outside the model.
\<close>

record VitalStatus =
  status :: string
  variant :: string

definition getVitalStatus :: "real \<Rightarrow> real \<Rightarrow> real \<Rightarrow> VitalStatus" where
  "getVitalStatus systolic diastolic sugar =
     (if systolic > 140 \<or> diastolic > 90 \<or> sugar > 200
      then \<lparr>status = ''Critical'', variant = ''destructive''\<rparr>
      else if systolic > 120 \<or> diastolic > 80 \<or> sugar > 140
      then \<lparr>status = ''Warning'', variant = ''secondary''\<rparr>
      else \<lparr>status = ''Normal'', variant = ''default''\<rparr>)"

text \<open>
  The copy in the patient portal page returns a third field \<open>icon\<close> (a JSX element),
  kept here by the name of the component and its colour class.
\<close>

record VitalStatusIcon = VitalStatus +
  icon :: "string \<times> string"

definition getVitalStatus_portal :: "real \<Rightarrow> real \<Rightarrow> real \<Rightarrow> VitalStatusIcon" where
  "getVitalStatus_portal systolic diastolic sugar =
     (if systolic > 140 \<or> diastolic > 90 \<or> sugar > 200
      then \<lparr>status = ''Critical'', variant = ''destructive'',
            icon = (''AlertCircle'', ''text-red-500'')\<rparr>
      else if systolic > 120 \<or> diastolic > 80 \<or> sugar > 140
      then \<lparr>status = ''Warning'', variant = ''secondary'',
            icon = (''AlertCircle'', ''text-yellow-500'')\<rparr>
      else \<lparr>status = ''Normal'', variant = ''default'',
            icon = (''CheckCircle'', ''text-green-500'')\<rparr>)"

text \<open>
  \<open>PatientModal\<close>, \<open>PatientManagement\<close> and \<open>PatientPortal\<close> also show one badge for the
  blood pressure and one for the blood sugar, each with a test of its own written in
  the JSX:
  \<^verbatim>\<open>
  <Badge variant={
    patient.bloodPressureSystolic > 140 || patient.bloodPressureDiastolic > 90
      ? 'destructive' : 'default'}>
    {patient.bloodPressureSystolic > 140 || patient.bloodPressureDiastolic > 90
      ? 'High' : 'Normal'}
  </Badge>
  <Badge variant={patient.bloodSugar > 140 ? 'destructive' : 'default'}>
    {patient.bloodSugar > 140 ? 'High' : 'Normal'}
  </Badge>
  \<close>
  A badge is its label and its variant.
\<close>

definition bloodPressure_badge :: "real \<Rightarrow> real \<Rightarrow> VitalStatus" where
  "bloodPressure_badge systolic diastolic =
     \<lparr>status = (if systolic > 140 \<or> diastolic > 90 then ''High'' else ''Normal''),
      variant = (if systolic > 140 \<or> diastolic > 90 then ''destructive'' else ''default'')\<rparr>"

definition bloodSugar_badge :: "real \<Rightarrow> VitalStatus" where
  "bloodSugar_badge sugar =
     \<lparr>status = (if sugar > 140 then ''High'' else ''Normal''),
      variant = (if sugar > 140 then ''destructive'' else ''default'')\<rparr>"

section \<open>The record store: tables of \<open>shared/schema.ts\<close>\<close>

text \<open>
  A table is the list of its rows in insertion order. Timestamps are instants in
  milliseconds since the epoch; the database and the server are taken to share a clock
  and a time zone. Integer columns are \<open>int\<close>, \<open>real\<close> columns are \<open>real\<close> (the
  rounding of a stored \<open>real\<close> is not modelled), a nullable column is an \<open>option\<close>.
  Of \<open>users\<close>, \<open>health_predictions\<close>, \<open>medical_images\<close> and \<open>appointments\<close> only the
  key columns are kept: the operations below read nothing else of them.
\<close>

type_synonym timestamp = int

record User =
  u_id :: int
  u_username :: string
  u_role :: string

record Patient =
  p_id :: int
  p_patientId :: string
  p_name :: string
  p_age :: int
  p_phone :: string
  p_bloodSugar :: real
  p_bloodPressureSystolic :: int
  p_bloodPressureDiastolic :: int
  p_weight :: "real option"
  p_height :: "real option"
  p_medicalHistory :: string
  p_createdAt :: "timestamp option"
  p_updatedAt :: "timestamp option"
  p_createdBy :: "int option"
  p_isActive :: bool

record HealthHistory =
  h_id :: int
  h_patientId :: int
  h_recordedBy :: int
  h_bloodSugar :: "real option"
  h_bloodPressureSystolic :: "int option"
  h_bloodPressureDiastolic :: "int option"
  h_changeType :: string
  h_notes :: "string option"
  h_timestamp :: "timestamp option"

record HealthPrediction =
  hp_id :: int
  hp_patientId :: "int option"

record MedicalImage =
  mi_id :: int
  mi_patientId :: "int option"

record Appointment =
  a_id :: int
  a_patientId :: int
  a_staffId :: int

text \<open>
  \<open>InsertPatient\<close> is the body accepted by \<open>insertPatientSchema\<close>; the argument of
  \<open>createPatient\<close> adds the \<open>patientId\<close> the route supplies and \<open>createdBy\<close>.
  \<open>Partial<InsertPatient>\<close> makes every key optional: \<open>None\<close> is an absent key, and for
  the nullable columns \<open>weight\<close> and \<open>height\<close> the value \<open>Some None\<close> is an explicit
  \<open>null\<close>.
\<close>

record InsertPatient =
  ip_name :: string
  ip_age :: int
  ip_phone :: string
  ip_bloodSugar :: real
  ip_bloodPressureSystolic :: int
  ip_bloodPressureDiastolic :: int
  ip_weight :: "real option"
  ip_height :: "real option"
  ip_medicalHistory :: string

record NewPatient = InsertPatient +
  ip_patientId :: string
  ip_createdBy :: int

record PartialInsertPatient =
  upd_name :: "string option"
  upd_age :: "int option"
  upd_phone :: "string option"
  upd_bloodSugar :: "real option"
  upd_bloodPressureSystolic :: "int option"
  upd_bloodPressureDiastolic :: "int option"
  upd_weight :: "real option option"
  upd_height :: "real option option"
  upd_medicalHistory :: "string option"

text \<open>
  The object literal handed to \<open>createHealthHistory\<close>. It carries \<open>weight\<close> and
  \<open>height\<close>, which are not columns of \<open>health_history\<close>: the insert writes the table's
  columns only, so the stored row has neither.
\<close>

record InsertHealthHistory =
  ih_patientId :: int
  ih_bloodPressureSystolic :: "int option"
  ih_bloodPressureDiastolic :: "int option"
  ih_bloodSugar :: "real option"
  ih_weight :: "real option"
  ih_height :: "real option"
  ih_recordedBy :: int
  ih_notes :: "string option"
  ih_changeType :: string

record Store =
  users :: "User list"
  patients :: "Patient list"
  healthHistory :: "HealthHistory list"
  healthPredictions :: "HealthPrediction list"
  medicalImages :: "MedicalImage list"
  appointments :: "Appointment list"
  patients_id_seq :: int
  health_history_id_seq :: int

text \<open>
  The constraints of the schema that a statement can violate: the unique index on
  \<open>patients.patient_id\<close> and the foreign keys (all \<open>ON DELETE no action\<close>). A violation
  makes the driver reject the promise; the statement then changes nothing. The query
  builder itself rejects an update whose \<open>set\<close> object has no defined value
  (\<open>No values to set\<close>), before any statement is sent.
\<close>

datatype db_error = UniqueViolation | ForeignKeyViolation | NoValuesToSet

subsection \<open>JavaScript truthiness and \<open>||\<close> on optional numbers\<close>

text \<open>
  \<open>undefined\<close>, \<open>null\<close> and \<open>0\<close> are falsy, every other number is truthy;
  \<open>a || b\<close> is \<open>a\<close> when \<open>a\<close> is truthy and \<open>b\<close> otherwise.
\<close>

definition truthy :: "'a::zero option \<Rightarrow> bool" where
  "truthy v = (case v of None \<Rightarrow> False | Some x \<Rightarrow> x \<noteq> 0)"

definition js_or :: "'a::zero option \<Rightarrow> 'a option \<Rightarrow> 'a option" where
  "js_or a b = (if truthy a then a else b)"

definition nullable :: "'a option option \<Rightarrow> 'a option" where
  "nullable v = (case v of None \<Rightarrow> None | Some x \<Rightarrow> x)"

subsection \<open>\<open>DatabaseStorage\<close>\<close>

definition getPatient :: "Store \<Rightarrow> int \<Rightarrow> Patient option" where
  "getPatient s i = find (\<lambda>p. p_id p = i) (patients s)"

definition user_exists :: "Store \<Rightarrow> int \<Rightarrow> bool" where
  "user_exists s i = list_ex (\<lambda>u. u_id u = i) (users s)"

definition patient_exists :: "Store \<Rightarrow> int \<Rightarrow> bool" where
  "patient_exists s i = list_ex (\<lambda>p. p_id p = i) (patients s)"

text \<open>\<open>db.insert(healthHistory).values(history).returning()\<close>, first row.\<close>

definition createHealthHistory ::
  "Store \<Rightarrow> timestamp \<Rightarrow> InsertHealthHistory \<Rightarrow> (db_error + HealthHistory) \<times> Store" where
  "createHealthHistory s now history =
     (let row = \<lparr>h_id = health_history_id_seq s,
                 h_patientId = ih_patientId history,
                 h_recordedBy = ih_recordedBy history,
                 h_bloodSugar = ih_bloodSugar history,
                 h_bloodPressureSystolic = ih_bloodPressureSystolic history,
                 h_bloodPressureDiastolic = ih_bloodPressureDiastolic history,
                 h_changeType = ih_changeType history,
                 h_notes = ih_notes history,
                 h_timestamp = Some now\<rparr>
      in if patient_exists s (ih_patientId history) \<and> user_exists s (ih_recordedBy history)
         then (Inr row, s\<lparr>healthHistory := healthHistory s @ [row],
                           health_history_id_seq := health_history_id_seq s + 1\<rparr>)
         else (Inl ForeignKeyViolation, s))"

text \<open>\<open>db.insert(patients).values(patient).returning()\<close>.\<close>

definition insertPatient ::
  "Store \<Rightarrow> timestamp \<Rightarrow> NewPatient \<Rightarrow> (db_error + Patient) \<times> Store" where
  "insertPatient s now patient =
     (let row = \<lparr>p_id = patients_id_seq s,
                 p_patientId = ip_patientId patient,
                 p_name = ip_name patient,
                 p_age = ip_age patient,
                 p_phone = ip_phone patient,
                 p_bloodSugar = ip_bloodSugar patient,
                 p_bloodPressureSystolic = ip_bloodPressureSystolic patient,
                 p_bloodPressureDiastolic = ip_bloodPressureDiastolic patient,
                 p_weight = ip_weight patient,
                 p_height = ip_height patient,
                 p_medicalHistory = ip_medicalHistory patient,
                 p_createdAt = Some now,
                 p_updatedAt = Some now,
                 p_createdBy = Some (ip_createdBy patient),
                 p_isActive = True\<rparr>
      in if list_ex (\<lambda>p. p_patientId p = ip_patientId patient) (patients s)
         then (Inl UniqueViolation, s)
         else if \<not> user_exists s (ip_createdBy patient)
         then (Inl ForeignKeyViolation, s)
         else (Inr row, s\<lparr>patients := patients s @ [row],
                           patients_id_seq := patients_id_seq s + 1\<rparr>))"

text \<open>
  \<^verbatim>\<open>
  async createPatient(patient: InsertPatient & { createdBy: number }): Promise<Patient> {
    const result = await db.insert(patients).values(patient).returning();
    await this.createHealthHistory({
      patientId: result[0].id,
      bloodPressureSystolic: patient.bloodPressureSystolic,
      bloodPressureDiastolic: patient.bloodPressureDiastolic,
      bloodSugar: patient.bloodSugar,
      weight: patient.weight,
      height: patient.height,
      recordedBy: patient.createdBy,
      notes: "Initial patient record",
      changeType: "initial_record"
    });
    return result[0];
  }
  \<close>
  The two statements run one after the other, each at its own time.
\<close>

definition createPatient ::
  "Store \<Rightarrow> timestamp \<Rightarrow> timestamp \<Rightarrow> NewPatient \<Rightarrow> (db_error + Patient) \<times> Store" where
  "createPatient s now now' patient =
     (case insertPatient s now patient of
        (Inl e, s1) \<Rightarrow> (Inl e, s1)
      | (Inr result, s1) \<Rightarrow>
          (case createHealthHistory s1 now'
                  \<lparr>ih_patientId = p_id result,
                   ih_bloodPressureSystolic = Some (ip_bloodPressureSystolic patient),
                   ih_bloodPressureDiastolic = Some (ip_bloodPressureDiastolic patient),
                   ih_bloodSugar = Some (ip_bloodSugar patient),
                   ih_weight = ip_weight patient,
                   ih_height = ip_height patient,
                   ih_recordedBy = ip_createdBy patient,
                   ih_notes = Some ''Initial patient record'',
                   ih_changeType = ''initial_record''\<rparr> of
             (Inl e, s2) \<Rightarrow> (Inl e, s2)
           | (Inr _, s2) \<Rightarrow> (Inr result, s2)))"

text \<open>\<open>db.update(patients).set(patient)\<close> on one row: the keys present overwrite.\<close>

definition set_patient :: "PartialInsertPatient \<Rightarrow> Patient \<Rightarrow> Patient" where
  "set_patient u p =
     p\<lparr>p_name := (case upd_name u of None \<Rightarrow> p_name p | Some v \<Rightarrow> v),
       p_age := (case upd_age u of None \<Rightarrow> p_age p | Some v \<Rightarrow> v),
       p_phone := (case upd_phone u of None \<Rightarrow> p_phone p | Some v \<Rightarrow> v),
       p_bloodSugar := (case upd_bloodSugar u of None \<Rightarrow> p_bloodSugar p | Some v \<Rightarrow> v),
       p_bloodPressureSystolic :=
         (case upd_bloodPressureSystolic u of None \<Rightarrow> p_bloodPressureSystolic p | Some v \<Rightarrow> v),
       p_bloodPressureDiastolic :=
         (case upd_bloodPressureDiastolic u of None \<Rightarrow> p_bloodPressureDiastolic p | Some v \<Rightarrow> v),
       p_weight := (case upd_weight u of None \<Rightarrow> p_weight p | Some v \<Rightarrow> v),
       p_height := (case upd_height u of None \<Rightarrow> p_height p | Some v \<Rightarrow> v),
       p_medicalHistory :=
         (case upd_medicalHistory u of None \<Rightarrow> p_medicalHistory p | Some v \<Rightarrow> v)\<rparr>"

text \<open>
  \<^verbatim>\<open>
  async updatePatient(id: number, patient: Partial<InsertPatient>): Promise<Patient | undefined> {
    const existingPatient = await this.getPatient(id);
    if (!existingPatient) return undefined;
    const result = await db.update(patients).set(patient).where(eq(patients.id, id)).returning();
    if (patient.bloodPressureSystolic || patient.bloodPressureDiastolic || patient.bloodSugar
        || patient.weight || patient.height) {
      await this.createHealthHistory({
        patientId: id,
        bloodPressureSystolic: patient.bloodPressureSystolic || existingPatient.bloodPressureSystolic,
        bloodPressureDiastolic: patient.bloodPressureDiastolic || existingPatient.bloodPressureDiastolic,
        bloodSugar: patient.bloodSugar || existingPatient.bloodSugar,
        weight: patient.weight || existingPatient.weight,
        height: patient.height || existingPatient.height,
        recordedBy: 1, // TODO: Get from current user context
        notes: "Patient record updated",
        changeType: "manual_edit"
      });
    }
    return result[0];
  }
  \<close>
\<close>

definition no_values :: "PartialInsertPatient \<Rightarrow> bool" where
  "no_values patient =
     (upd_name patient = None \<and> upd_age patient = None \<and> upd_phone patient = None
      \<and> upd_bloodSugar patient = None \<and> upd_bloodPressureSystolic patient = None
      \<and> upd_bloodPressureDiastolic patient = None \<and> upd_weight patient = None
      \<and> upd_height patient = None \<and> upd_medicalHistory patient = None)"

definition vitals_truthy :: "PartialInsertPatient \<Rightarrow> bool" where
  "vitals_truthy patient =
     (truthy (upd_bloodPressureSystolic patient) \<or> truthy (upd_bloodPressureDiastolic patient)
      \<or> truthy (upd_bloodSugar patient) \<or> truthy (nullable (upd_weight patient))
      \<or> truthy (nullable (upd_height patient)))"

definition updatePatient ::
  "Store \<Rightarrow> timestamp \<Rightarrow> int \<Rightarrow> PartialInsertPatient \<Rightarrow> (db_error + Patient option) \<times> Store" where
  "updatePatient s now i patient =
     (case getPatient s i of
        None \<Rightarrow> (Inr None, s)
      | Some existingPatient \<Rightarrow>
          if no_values patient then (Inl NoValuesToSet, s)
          else
          (let s1 = s\<lparr>patients :=
                       map (\<lambda>p. if p_id p = i then set_patient patient p else p) (patients s)\<rparr>;
               result = find (\<lambda>p. p_id p = i) (patients s1)
           in if vitals_truthy patient
              then (case createHealthHistory s1 now
                      \<lparr>ih_patientId = i,
                       ih_bloodPressureSystolic =
                         js_or (upd_bloodPressureSystolic patient)
                               (Some (p_bloodPressureSystolic existingPatient)),
                       ih_bloodPressureDiastolic =
                         js_or (upd_bloodPressureDiastolic patient)
                               (Some (p_bloodPressureDiastolic existingPatient)),
                       ih_bloodSugar =
                         js_or (upd_bloodSugar patient) (Some (p_bloodSugar existingPatient)),
                       ih_weight = js_or (nullable (upd_weight patient)) (p_weight existingPatient),
                       ih_height = js_or (nullable (upd_height patient)) (p_height existingPatient),
                       ih_recordedBy = 1,
                       ih_notes = Some ''Patient record updated'',
                       ih_changeType = ''manual_edit''\<rparr> of
                      (Inl e, s2) \<Rightarrow> (Inl e, s2)
                    | (Inr _, s2) \<Rightarrow> (Inr result, s2))
              else (Inr result, s1)))"

text \<open>
  The route calls \<open>storage.updatePatient(id, updates, req.user!.id)\<close>. The method has two
  parameters, so the third argument of the call is never read.
\<close>

definition storage_updatePatient ::
  "Store \<Rightarrow> timestamp \<Rightarrow> int \<Rightarrow> PartialInsertPatient \<Rightarrow> int
     \<Rightarrow> (db_error + Patient option) \<times> Store" where
  "storage_updatePatient s now i updates recordedBy = updatePatient s now i updates"

text \<open>
  \<^verbatim>\<open>
  async deletePatient(id: number): Promise<boolean> {
    try {
      await db.delete(healthHistory).where(eq(healthHistory.patientId, id));
      const result = await db.delete(patients).where(eq(patients.id, id)).returning();
      return result.length > 0;
    } catch (error) { console.error(...); throw error; }
  }
  \<close>
  Two statements, no \<open>db.transaction\<close>. The second is refused while a row of
  \<open>health_predictions\<close>, \<open>medical_images\<close>, \<open>appointments\<close> or \<open>health_history\<close> still
  references a patient it would delete.
\<close>

definition referenced_elsewhere :: "Store \<Rightarrow> int \<Rightarrow> bool" where
  "referenced_elsewhere s i =
     (list_ex (\<lambda>r. hp_patientId r = Some i) (healthPredictions s)
      \<or> list_ex (\<lambda>r. mi_patientId r = Some i) (medicalImages s)
      \<or> list_ex (\<lambda>r. a_patientId r = i) (appointments s))"

definition patient_referenced :: "Store \<Rightarrow> int \<Rightarrow> bool" where
  "patient_referenced s i =
     (list_ex (\<lambda>h. h_patientId h = i) (healthHistory s) \<or> referenced_elsewhere s i)"

definition deletePatient :: "Store \<Rightarrow> int \<Rightarrow> (db_error + bool) \<times> Store" where
  "deletePatient s i =
     (let s1 = s\<lparr>healthHistory := filter (\<lambda>h. h_patientId h \<noteq> i) (healthHistory s)\<rparr>;
          result = filter (\<lambda>p. p_id p = i) (patients s1)
      in if result \<noteq> [] \<and> patient_referenced s1 i
         then (Inl ForeignKeyViolation, s1)
         else (Inr (length result > 0),
               s1\<lparr>patients := filter (\<lambda>p. p_id p \<noteq> i) (patients s1)\<rparr>))"

text \<open>
  \<^verbatim>\<open>
  async getHealthHistoryByPatient(patientId: number): Promise<HealthHistory[]> {
    return await db.select().from(healthHistory)
      .where(eq(healthHistory.patientId, patientId))
      //.orderBy(desc(healthHistory.timestamp)); // Fix: use correct field
  }
  \<close>
  With no \<open>ORDER BY\<close> the rows come back as the table holds them.
\<close>

definition getHealthHistoryByPatient :: "Store \<Rightarrow> int \<Rightarrow> HealthHistory list" where
  "getHealthHistoryByPatient s patientId =
     filter (\<lambda>h. h_patientId h = patientId) (healthHistory s)"

text \<open>
  \<open>getAllPatients\<close>: \<open>ORDER BY created_at DESC\<close>; a descending order puts \<open>NULL\<close> first.
\<close>

definition desc_key :: "timestamp option \<Rightarrow> timestamp option" where
  "desc_key t = (case t of None \<Rightarrow> None | Some v \<Rightarrow> Some (- v))"

definition getAllPatients :: "Store \<Rightarrow> Patient list" where
  "getAllPatients s = sort_key (\<lambda>p. desc_key (p_createdAt p)) (patients s)"

text \<open>
  \<^verbatim>\<open>
  async getPatientStats() {
    const totalPatients = await db.select({ count: count() }).from(patients);
    const today = new Date();
    today.setHours(0, 0, 0, 0);
    const newAdmissions = await db.select({ count: count() }).from(patients)
      .where(gte(patients.createdAt, today));
    const aiPredictions = await db.select({ count: count() }).from(healthPredictions);
    const criticalCases = await db.select({ count: count() }).from(patients)
      .where(or(gte(patients.bloodPressureSystolic, 140), gte(patients.bloodSugar, 200)));
    return { totalPatients: ..., newAdmissions: ..., criticalCases: ..., aiPredictions: ... };
  }
  \<close>
  \<open>setHours(0, 0, 0, 0)\<close> moves an instant back to the start of its local day; the zone
  is taken at a fixed offset \<open>tz\<close> (milliseconds east of UTC). A \<open>NULL\<close> \<open>created_at\<close>
  fails \<open>gte\<close>.
\<close>

record PatientStats =
  totalPatients :: nat
  newAdmissions :: nat
  criticalCases :: nat
  aiPredictions :: nat

definition msPerDay :: int where
  "msPerDay = 24 * 60 * 60 * 1000"

definition setHours0 :: "int \<Rightarrow> timestamp \<Rightarrow> timestamp" where
  "setHours0 tz t = t - (t + tz) mod msPerDay"

definition gte_createdAt :: "timestamp \<Rightarrow> Patient \<Rightarrow> bool" where
  "gte_createdAt today p = (case p_createdAt p of None \<Rightarrow> False | Some t \<Rightarrow> t \<ge> today)"

definition stats_critical :: "Patient \<Rightarrow> bool" where
  "stats_critical p = (p_bloodPressureSystolic p \<ge> 140 \<or> p_bloodSugar p \<ge> 200)"

definition getPatientStats :: "Store \<Rightarrow> int \<Rightarrow> timestamp \<Rightarrow> PatientStats" where
  "getPatientStats s tz now =
     (let today = setHours0 tz now
      in \<lparr>totalPatients = length (patients s),
          newAdmissions = length (filter (gte_createdAt today) (patients s)),
          criticalCases = length (filter stats_critical (patients s)),
          aiPredictions = length (healthPredictions s)\<rparr>)"

text \<open>
  The Critical predicate of the classification ladder, on a stored patient: what a badge
  shows for the row (\<open>getVitalStatus(patient.bloodPressureSystolic,
  patient.bloodPressureDiastolic, patient.bloodSugar)\<close>).
\<close>

definition ladder_critical :: "Patient \<Rightarrow> bool" where
  "ladder_critical p =
     (status (getVitalStatus (real_of_int (p_bloodPressureSystolic p))
                             (real_of_int (p_bloodPressureDiastolic p))
                             (p_bloodSugar p)) = ''Critical'')"

subsection \<open>\<open>MemStorage\<close>, the in-memory sibling\<close>

text \<open>
  \<open>storage.ts\<close> also holds the in-memory implementation of the same interface; the
  exported \<open>storage\<close> is the \<open>DatabaseStorage\<close>. Its maps are keyed by the row ids:
  the patients are a map, the history entries the list of the map's values in
  insertion order. Only what its \<open>updatePatient\<close> and history query touch is kept.
  \<^verbatim>\<open>
  async updatePatient(id: number, updates: Partial<InsertPatient>, recordedBy?: number) {
    const patient = this.patients.get(id);
    if (!patient) return undefined;
    const updatedPatient = { ...patient, ...updates, updatedAt: new Date() };
    this.patients.set(id, updatedPatient);
    // Create health history record if vital signs are updated
    if (recordedBy && (updates.bloodSugar || updates.bloodPressureSystolic
                       || updates.bloodPressureDiastolic)) {
      await this.createHealthHistory({
        patientId: id,
        recordedBy,
        bloodSugar: updates.bloodSugar || patient.bloodSugar,
        bloodPressureSystolic: updates.bloodPressureSystolic || patient.bloodPressureSystolic,
        bloodPressureDiastolic: updates.bloodPressureDiastolic || patient.bloodPressureDiastolic,
        changeType: 'manual_edit',
        notes: 'Patient record updated by staff'
      });
    }
    return updatedPatient;
  }
  async createHealthHistory(insertHistory: InsertHealthHistory): Promise<HealthHistory> {
    const id = this.currentHealthHistoryId++;
    const history: HealthHistory = { ...insertHistory, id, timestamp: new Date() };
    this.healthHistories.set(id, history);
    return history;
  }
  async getHealthHistoryByPatient(patientId: number): Promise<HealthHistory[]> {
    return Array.from(this.healthHistories.values())
      .filter(history => history.patientId === patientId)
      .sort((a, b) => (b.timestamp?.getTime() || 0) - (a.timestamp?.getTime() || 0));
  }
  \<close>
\<close>

record MemStorage =
  m_patients :: "int \<rightharpoonup> Patient"
  m_healthHistories :: "HealthHistory list"
  currentHealthHistoryId :: int

definition mem_createHealthHistory ::
  "MemStorage \<Rightarrow> timestamp \<Rightarrow> InsertHealthHistory \<Rightarrow> HealthHistory \<times> MemStorage" where
  "mem_createHealthHistory m now insertHistory =
     (let history = \<lparr>h_id = currentHealthHistoryId m,
                     h_patientId = ih_patientId insertHistory,
                     h_recordedBy = ih_recordedBy insertHistory,
                     h_bloodSugar = ih_bloodSugar insertHistory,
                     h_bloodPressureSystolic = ih_bloodPressureSystolic insertHistory,
                     h_bloodPressureDiastolic = ih_bloodPressureDiastolic insertHistory,
                     h_changeType = ih_changeType insertHistory,
                     h_notes = ih_notes insertHistory,
                     h_timestamp = Some now\<rparr>
      in (history, m\<lparr>m_healthHistories := m_healthHistories m @ [history],
                      currentHealthHistoryId := currentHealthHistoryId m + 1\<rparr>))"

definition mem_updatePatient ::
  "MemStorage \<Rightarrow> timestamp \<Rightarrow> timestamp \<Rightarrow> int \<Rightarrow> PartialInsertPatient \<Rightarrow> int option
     \<Rightarrow> Patient option \<times> MemStorage" where
  "mem_updatePatient m now now' i updates recordedBy =
     (case m_patients m i of
        None \<Rightarrow> (None, m)
      | Some patient \<Rightarrow>
          (let updatedPatient = (set_patient updates patient)\<lparr>p_updatedAt := Some now\<rparr>;
               m1 = m\<lparr>m_patients := (m_patients m)(i \<mapsto> updatedPatient)\<rparr>
           in case recordedBy of
                None \<Rightarrow> (Some updatedPatient, m1)
              | Some r \<Rightarrow>
                  if r \<noteq> 0 \<and> (truthy (upd_bloodSugar updates)
                               \<or> truthy (upd_bloodPressureSystolic updates)
                               \<or> truthy (upd_bloodPressureDiastolic updates))
                  then (Some updatedPatient,
                        snd (mem_createHealthHistory m1 now'
                          \<lparr>ih_patientId = i,
                           ih_bloodPressureSystolic =
                             js_or (upd_bloodPressureSystolic updates)
                                   (Some (p_bloodPressureSystolic patient)),
                           ih_bloodPressureDiastolic =
                             js_or (upd_bloodPressureDiastolic updates)
                                   (Some (p_bloodPressureDiastolic patient)),
                           ih_bloodSugar =
                             js_or (upd_bloodSugar updates) (Some (p_bloodSugar patient)),
                           ih_weight = None,
                           ih_height = None,
                           ih_recordedBy = r,
                           ih_notes = Some ''Patient record updated by staff'',
                           ih_changeType = ''manual_edit''\<rparr>))
                  else (Some updatedPatient, m1)))"

text \<open>The comparator sorts by \<open>timestamp?.getTime() || 0\<close>, descending; the sort is stable.\<close>

definition time_or_0 :: "HealthHistory \<Rightarrow> int" where
  "time_or_0 h = (case h_timestamp h of None \<Rightarrow> 0 | Some t \<Rightarrow> t)"

definition mem_getHealthHistoryByPatient :: "MemStorage \<Rightarrow> int \<Rightarrow> HealthHistory list" where
  "mem_getHealthHistoryByPatient m patientId =
     sort_key (\<lambda>h. - time_or_0 h)
       (filter (\<lambda>history. h_patientId history = patientId) (m_healthHistories m))"

subsection \<open>Consistency of a store\<close>

text \<open>
  What the schema's constraints and the \<open>serial\<close> key keep true of the tables: ids and
  patient ids are unique, every id was handed out by the sequence, and a history row
  refers to a patient that exists.
\<close>

definition store_ok :: "Store \<Rightarrow> bool" where
  "store_ok s =
     (distinct (map p_id (patients s)) \<and> distinct (map p_patientId (patients s))
      \<and> list_all (\<lambda>p. p_id p < patients_id_seq s) (patients s)
      \<and> list_all (\<lambda>h. patient_exists s (h_patientId h)) (healthHistory s))"

section \<open>Patient creation route and the generated \<open>patientId\<close>\<close>

text \<open>\<open>String(n)\<close> of a non-negative integer, and of an integer.\<close>

definition digit_char :: "nat \<Rightarrow> char" where
  "digit_char d = ''0123456789'' ! d"

fun show_nat :: "nat \<Rightarrow> string" where
  "show_nat n = (if n < 10 then [digit_char n] else show_nat (n div 10) @ [digit_char (n mod 10)])"

declare show_nat.simps [simp del]

definition show_int :: "int \<Rightarrow> string" where
  "show_int i = (if i < 0 then CHR ''-'' # show_nat (nat (- i)) else show_nat (nat i))"

text \<open>
  \<^verbatim>\<open>
  app.post('/api/patients', requireAuth, requireRole(['staff', 'admin']), async (req, res) => {
    try {
      const patientData = insertPatientSchema.parse(req.body);
      const patient = await storage.createPatient({
        patientId: `PT-${Date.now()}`, // or use uuid(), nanoid(), etc.
        ...patientData,
        createdBy: req.user!.id,
      });
      ...
  \<close>
  \<open>dateNow\<close> is \<open>Date.now()\<close>, the milliseconds since the epoch. The parsed body has no
  \<open>patientId\<close> key, so the spread does not overwrite the generated one. The audit log
  entry the handler writes next is not modelled.
\<close>

definition generated_patientId :: "nat \<Rightarrow> string" where
  "generated_patientId dateNow = ''PT-'' @ show_nat dateNow"

definition post_api_patients ::
  "Store \<Rightarrow> nat \<Rightarrow> timestamp \<Rightarrow> timestamp \<Rightarrow> int \<Rightarrow> InsertPatient
     \<Rightarrow> (db_error + Patient) \<times> Store" where
  "post_api_patients s dateNow now now' userId patientData =
     createPatient s now now'
       \<lparr>ip_name = ip_name patientData,
        ip_age = ip_age patientData,
        ip_phone = ip_phone patientData,
        ip_bloodSugar = ip_bloodSugar patientData,
        ip_bloodPressureSystolic = ip_bloodPressureSystolic patientData,
        ip_bloodPressureDiastolic = ip_bloodPressureDiastolic patientData,
        ip_weight = ip_weight patientData,
        ip_height = ip_height patientData,
        ip_medicalHistory = ip_medicalHistory patientData,
        ip_patientId = generated_patientId dateNow,
        ip_createdBy = userId\<rparr>"

text \<open>
  The format the specification gives for a patient id, \<open>PT-\d{4}-\d{3}\<close>: as a match of
  the whole string, and as a match somewhere in it (an unanchored regular expression).
\<close>

definition is_digit :: "char \<Rightarrow> bool" where
  "is_digit c = (c \<in> set ''0123456789'')"

definition matches_PT_format :: "string \<Rightarrow> bool" where
  "matches_PT_format s =
     (length s = 11 \<and> take 3 s = ''PT-'' \<and> list_all is_digit (take 4 (drop 3 s))
      \<and> take 1 (drop 7 s) = ''-'' \<and> list_all is_digit (drop 8 s))"

definition contains_PT_format :: "string \<Rightarrow> bool" where
  "contains_PT_format s = list_ex (\<lambda>i. matches_PT_format (take 11 (drop i s))) [0..<length s]"

section \<open>CSV export\<close>

text \<open>
  Strings are sequences of bytes in UTF-8, the encoding of the response: the characters
  the code looks for are ASCII, and the byte-order mark \<open>U+FEFF\<close> is the three bytes
  \<open>EF BB BF\<close>.
  \<^verbatim>\<open>
  const escapeCsvField = (field: any): string => {
    if (field == null || field === undefined) return '';
    const str = String(field);
    if (str.includes(',') || str.includes('"') || str.includes('\n') || str.includes('\r')) {
      return `"${str.replace(/"/g, '""')}"`;
    }
    return str;
  };
  \<close>
  The argument is \<open>None\<close> for \<open>null\<close> and \<open>undefined\<close>, and \<open>Some (String(field))\<close>
  otherwise.
\<close>

definition dquote :: char where "dquote = CHR 0x22"
definition LF :: char where "LF = CHR 0x0A"
definition CR :: char where "CR = CHR 0x0D"
definition comma :: char where "comma = CHR '',''"

definition replace_quotes :: "string \<Rightarrow> string" where
  "replace_quotes str = concat (map (\<lambda>c. if c = dquote then [dquote, dquote] else [c]) str)"

definition escapeCsvField :: "string option \<Rightarrow> string" where
  "escapeCsvField field =
     (case field of
        None \<Rightarrow> []
      | Some str \<Rightarrow>
          if comma \<in> set str \<or> dquote \<in> set str \<or> LF \<in> set str \<or> CR \<in> set str
          then [dquote] @ replace_quotes str @ [dquote]
          else str)"

text \<open>\<open>Array.prototype.join\<close>.\<close>

fun join :: "'a list \<Rightarrow> 'a list list \<Rightarrow> 'a list" where
  "join sep [] = []"
| "join sep [x] = x"
| "join sep (x # y # ys) = x @ sep @ join sep (y # ys)"

text \<open>
  \<^verbatim>\<open>
  const csvHeader = 'Patient ID,Name,Age,Phone,Blood Sugar,Systolic BP,Diastolic BP,Medical History,Created Date\n';
  const csvData = patients.map(patient => {
    return [
      escapeCsvField(patient.patientId), escapeCsvField(patient.name),
      escapeCsvField(patient.age), escapeCsvField(patient.phone),
      escapeCsvField(patient.bloodSugar), escapeCsvField(patient.bloodPressureSystolic),
      escapeCsvField(patient.bloodPressureDiastolic), escapeCsvField(patient.medicalHistory),
      escapeCsvField(new Date(patient.createdAt).toISOString().split('T')[0])
    ].join(',');
  }).join('\n');
  const csvContent = csvHeader + csvData;
  ...
  res.send(<U+FEFF> + csvContent); // Add BOM for UTF-8 support
  \<close>
  The values of the nine columns of a patient, as strings: \<open>num\<close> is \<open>String\<close> on the
  \<open>real\<close> column and \<open>day\<close> is \<open>new Date(createdAt).toISOString().split('T')[0]\<close>, both
  left as parameters.
\<close>

definition export_values ::
  "(real \<Rightarrow> string) \<Rightarrow> (timestamp option \<Rightarrow> string) \<Rightarrow> Patient \<Rightarrow> string list" where
  "export_values num day patient =
     [p_patientId patient,
      p_name patient,
      show_int (p_age patient),
      p_phone patient,
      num (p_bloodSugar patient),
      show_int (p_bloodPressureSystolic patient),
      show_int (p_bloodPressureDiastolic patient),
      p_medicalHistory patient,
      day (p_createdAt patient)]"

definition header_values :: "string list" where
  "header_values =
     [''Patient ID'', ''Name'', ''Age'', ''Phone'', ''Blood Sugar'', ''Systolic BP'',
      ''Diastolic BP'', ''Medical History'', ''Created Date'']"

definition csvHeader :: string where
  "csvHeader =
     ''Patient ID,Name,Age,Phone,Blood Sugar,Systolic BP,Diastolic BP,Medical History,Created Date''
       @ [LF]"

definition csvLine :: "string list \<Rightarrow> string" where
  "csvLine values = join [comma] (map (\<lambda>v. escapeCsvField (Some v)) values)"

definition csvData ::
  "(real \<Rightarrow> string) \<Rightarrow> (timestamp option \<Rightarrow> string) \<Rightarrow> Patient list \<Rightarrow> string" where
  "csvData num day ps = join [LF] (map (\<lambda>patient. csvLine (export_values num day patient)) ps)"

definition BOM :: string where
  "BOM = [CHR 0xEF, CHR 0xBB, CHR 0xBF]"

definition export_csv ::
  "(real \<Rightarrow> string) \<Rightarrow> (timestamp option \<Rightarrow> string) \<Rightarrow> Store \<Rightarrow> string" where
  "export_csv num day s = BOM @ (csvHeader @ csvData num day (getAllPatients s))"

text \<open>
  The repository has no CSV reader. Re-parsing is measured against the usual reading of
  quoted fields (RFC 4180): fields are separated by commas and records by line feeds; a
  field that opens with a double quote runs to the closing quote, and a doubled quote
  inside it is one quote. The reader is a state machine over the input, with the field,
  the record and the records read so far; input that ends right after a line feed ends
  the last record there.
\<close>

datatype csv_state = FieldStart | Unquoted | Quoted | QuoteSeen

fun csv_read ::
  "csv_state \<Rightarrow> string \<Rightarrow> string list \<Rightarrow> string list list \<Rightarrow> string \<Rightarrow> string list list" where
  "csv_read st fld rcd rcds [] =
     (if st = FieldStart \<and> rcd = [] then rcds else rcds @ [rcd @ [fld]])"
| "csv_read FieldStart fld rcd rcds (c # cs) =
     (if c = dquote then csv_read Quoted [] rcd rcds cs
      else if c = comma then csv_read FieldStart [] (rcd @ [[]]) rcds cs
      else if c = LF then csv_read FieldStart [] [] (rcds @ [rcd @ [[]]]) cs
      else csv_read Unquoted [c] rcd rcds cs)"
| "csv_read Unquoted fld rcd rcds (c # cs) =
     (if c = comma then csv_read FieldStart [] (rcd @ [fld]) rcds cs
      else if c = LF then csv_read FieldStart [] [] (rcds @ [rcd @ [fld]]) cs
      else csv_read Unquoted (fld @ [c]) rcd rcds cs)"
| "csv_read Quoted fld rcd rcds (c # cs) =
     (if c = dquote then csv_read QuoteSeen fld rcd rcds cs
      else csv_read Quoted (fld @ [c]) rcd rcds cs)"
| "csv_read QuoteSeen fld rcd rcds (c # cs) =
     (if c = dquote then csv_read Quoted (fld @ [dquote]) rcd rcds cs
      else if c = comma then csv_read FieldStart [] (rcd @ [fld]) rcds cs
      else if c = LF then csv_read FieldStart [] [] (rcds @ [rcd @ [fld]]) cs
      else csv_read Unquoted (fld @ [c]) rcd rcds cs)"

definition csv_parse :: "string \<Rightarrow> string list list" where
  "csv_parse text = csv_read FieldStart [] [] [] text"

section \<open>The external estimators and their fallbacks (\<open>server/ai-models.ts\<close>)\<close>

subsection \<open>Running the script\<close>

text \<open>
  \<^verbatim>\<open>
  private async callPythonScript(scriptName: string, args: any): Promise<any> {
    return new Promise((resolve, reject) => {
      const pythonProcess = spawn('python', [
        path.join(process.cwd(), 'server', scriptName), JSON.stringify(args)]);
      let dataString = '';
      let errorString = '';
      pythonProcess.stdout.on('data', (data) => { dataString += data.toString(); });
      pythonProcess.stderr.on('data', (data) => { errorString += data.toString(); });
      pythonProcess.on('close', (code) => {
        if (code !== 0) {
          reject(new Error(`Python script failed: ${errorString}`));
          return;
        }
        try {
          const result = JSON.parse(dataString.trim());
          resolve(result);
        } catch (error) {
          reject(new Error(`Failed to parse Python output: ${dataString}`));
        }
      });
    });
  }
  \<close>
  What the spawned process does is an input of the model. Either it cannot be started
  (no \<open>python\<close> on the path: the child emits \<open>error\<close>), or it is started and never
  closes, or it closes with an exit code (\<open>null\<close> when a signal ended it) after writing
  \<open>dataString\<close> to its standard output and \<open>errorString\<close> to its standard error.

  The only listener on the child is the one for \<open>close\<close>. There is none for \<open>error\<close>
  and there is no timeout, so in the first two cases neither \<open>resolve\<close> nor \<open>reject\<close> is
  ever called: the promise is never settled (and Node raises an \<open>error\<close> event nobody
  listens to as an uncaught exception).

  \<open>JSON_parse s\<close> stands for \<open>JSON.parse(s.trim())\<close>, \<open>None\<close> when it throws. The value
  is returned as the result whatever its shape (the promise is a \<open>Promise<any>\<close>).
\<close>

datatype child_process = SpawnError | NeverCloses | Closed "int option" string string

datatype 'a promise = Resolved 'a | Rejected string | NeverSettled

definition callPythonScript :: "(string \<Rightarrow> 'a option) \<Rightarrow> child_process \<Rightarrow> 'a promise" where
  "callPythonScript JSON_parse pythonProcess =
     (case pythonProcess of
        Closed code dataString errorString \<Rightarrow>
          if code \<noteq> Some 0
          then Rejected (''Python script failed: '' @ errorString)
          else (case JSON_parse dataString of
                  Some result \<Rightarrow> Resolved result
                | None \<Rightarrow> Rejected (''Failed to parse Python output: '' @ dataString))
      | SpawnError \<Rightarrow> NeverSettled
      | NeverCloses \<Rightarrow> NeverSettled)"

subsection \<open>The health-risk estimator\<close>

text \<open>
  Numbers are reals. The inputs are compared with integer thresholds, and the fallback
  adds small integers and halves one sum, all of which doubles do exactly.
\<close>

datatype gender = male | female

record HealthPredictionInput =
  age :: real
  gender :: gender
  systolicBP :: real
  diastolicBP :: real
  bloodSugar :: real
  bmi :: real

record HealthPredictionResult =
  cardiovascularRisk :: real
  diabetesRisk :: real
  overallHealthScore :: real
  recommendations :: "string list"

definition fallbackHealthPrediction :: "HealthPredictionInput \<Rightarrow> HealthPredictionResult" where
  "fallbackHealthPrediction input =
     (let cardiovascularRisk0 =
            (if systolicBP input > 140 \<or> diastolicBP input > 90 then 30 else 0)
            + (if age input > 65 then 20 else 0)
            + (if gender input = male then 10 else 0)
            + (if bmi input > 30 then 15 else 0)
            + (if bloodSugar input > 200 then 25 else 0);
          diabetesRisk0 =
            (if bloodSugar input > 126 then 40 else 0)
            + (if bmi input > 30 then 25 else 0)
            + (if age input > 45 then 15 else 0)
            + (if systolicBP input > 140 then 10 else 0);
          overallHealthScore0 = max 0 (100 - (cardiovascularRisk0 + diabetesRisk0) / 2)
      in \<lparr>cardiovascularRisk = min 100 cardiovascularRisk0,
          diabetesRisk = min 100 diabetesRisk0,
          overallHealthScore = overallHealthScore0,
          recommendations =
            (if systolicBP input > 140 then [''Monitor blood pressure regularly''] else [])
            @ (if bloodSugar input > 126
               then [''Consult endocrinologist for diabetes management''] else [])
            @ (if bmi input > 30 then [''Consider weight management program''] else [])
            @ (if overallHealthScore0 < 70
               then [''Schedule comprehensive health checkup''] else [])\<rparr>)"

text \<open>
  \<^verbatim>\<open>
  async predictHealthRisk(input: HealthPredictionInput): Promise<HealthPredictionResult> {
    try {
      const result = await this.callPythonScript('health_prediction.py', input);
      return result;
    } catch (error) {
      console.error('Health prediction error:', error);
      // Fallback to basic calculation if Python fails
      return this.fallbackHealthPrediction(input);
    }
  }
  \<close>
  The \<open>catch\<close> runs when the awaited promise is rejected. While that promise is not
  settled the \<open>await\<close> does not return, and the promise of \<open>predictHealthRisk\<close> is not
  settled either.
\<close>

definition predictHealthRisk ::
  "(string \<Rightarrow> HealthPredictionResult option) \<Rightarrow> child_process \<Rightarrow> HealthPredictionInput
     \<Rightarrow> HealthPredictionResult promise" where
  "predictHealthRisk JSON_parse pythonProcess input =
     (case callPythonScript JSON_parse pythonProcess of
        Resolved result \<Rightarrow> Resolved result
      | Rejected error \<Rightarrow> Resolved (fallbackHealthPrediction input)
      | NeverSettled \<Rightarrow> NeverSettled)"

subsection \<open>The image analyzer\<close>

text \<open>
  \<^verbatim>\<open>
  private fallbackImageAnalysis(filename: string, analysisType: string): ImageAnalysisResult {
    // Simulate AI analysis with random but realistic results
    const confidence = 0.85 + Math.random() * 0.15; // 85-100% confidence
    const abnormalityDetected = Math.random() < 0.2; // 20% chance of abnormality
    ...
  \<close>
  The two draws of \<open>Math.random()\<close>, doubles in \<open>[0, 1)\<close>, are the arguments \<open>random1\<close> and
  \<open>random2\<close>.

  Here the arithmetic is not exact, so it is written out. A double is the real number it
  denotes. \<open>fl x\<close> is the double nearest to the real \<open>x\<close>, the even one of two nearest: a
  53-bit significand scaled by the power of two of the binade of \<open>x\<close>. A decimal
  literal \<open>c\<close> denotes \<open>fl c\<close>, and a sum or product of doubles is \<open>fl\<close> of the exact sum or
  product. The exponent is not bounded in \<open>fl\<close>: a draw is 0 or at least \<open>1 / 2 ^ 53\<close>,
  so every number rounded here is 0 or lies between \<open>1 / 2 ^ 56\<close> and 1, well inside
  the range of normal doubles.
\<close>

definition rne :: "real \<Rightarrow> int" where
  "rne x = (let f = \<lfloor>x\<rfloor>; d = x - of_int f
            in if d < 1/2 then f else if 1/2 < d then f + 1 else if even f then f else f + 1)"

definition fl :: "real \<Rightarrow> real" where
  "fl x = (if x = 0 then 0
           else let e = \<lfloor>log 2 \<bar>x\<bar>\<rfloor>
                in of_int (rne (x * 2 powr (52 - of_int e))) * 2 powr (of_int e - 52))"

record ImageAnalysisResult =
  abnormalityDetected :: bool
  confidence :: real
  findings :: string
  ia_recommendations :: "string list"

definition fallbackImageAnalysis :: "real \<Rightarrow> real \<Rightarrow> string \<Rightarrow> string \<Rightarrow> ImageAnalysisResult" where
  "fallbackImageAnalysis random1 random2 filename analysisType =
     (let confidence0 = fl (fl 0.85 + fl (random1 * fl 0.15));
          abnormalityDetected0 = (random2 < fl 0.2)
      in if abnormalityDetected0
         then (if analysisType = ''xray''
               then \<lparr>abnormalityDetected = abnormalityDetected0, confidence = confidence0,
                     findings = ''Mild opacity detected in lower lung field. May indicate early infection or inflammation.'',
                     ia_recommendations = [''Recommend follow-up CT scan'',
                       ''Consider antibiotic treatment'', ''Monitor symptoms closely'']\<rparr>
               else if analysisType = ''ct''
               then \<lparr>abnormalityDetected = abnormalityDetected0, confidence = confidence0,
                     findings = ''Small nodule detected in lung. Requires further evaluation.'',
                     ia_recommendations = [''Schedule PET scan'', ''Consult oncologist'',
                       ''Follow-up in 3 months'']\<rparr>
               else if analysisType = ''mri''
               then \<lparr>abnormalityDetected = abnormalityDetected0, confidence = confidence0,
                     findings = ''Minor signal abnormality in brain tissue. Likely benign but needs monitoring.'',
                     ia_recommendations = [''Repeat MRI in 6 months'',
                       ''Neurological consultation'', ''Monitor for symptoms'']\<rparr>
               else \<lparr>abnormalityDetected = abnormalityDetected0, confidence = confidence0,
                     findings = ''Abnormal tissue pattern detected. Requires specialist review.'',
                     ia_recommendations = [''Consult specialist'',
                       ''Additional imaging recommended'']\<rparr>)
         else \<lparr>abnormalityDetected = abnormalityDetected0, confidence = confidence0,
               findings = ''No significant abnormalities detected. Normal anatomical structures observed.'',
               ia_recommendations = [''Continue routine monitoring'',
                 ''No immediate action required'']\<rparr>)"

text \<open>
  \<^verbatim>\<open>
  async analyzeImage(filename: string, analysisType: string): Promise<ImageAnalysisResult> {
    try {
      const result = await this.callPythonScript('image_analysis.py', { filename, analysisType });
      return result;
    } catch (error) {
      console.error('Image analysis error:', error);
      // Fallback to basic analysis if Python fails
      return this.fallbackImageAnalysis(filename, analysisType);
    }
  }
  \<close>
\<close>

definition analyzeImage ::
  "(string \<Rightarrow> ImageAnalysisResult option) \<Rightarrow> child_process \<Rightarrow> real \<Rightarrow> real \<Rightarrow> string \<Rightarrow> string
     \<Rightarrow> ImageAnalysisResult promise" where
  "analyzeImage JSON_parse pythonProcess random1 random2 filename analysisType =
     (case callPythonScript JSON_parse pythonProcess of
        Resolved result \<Rightarrow> Resolved result
      | Rejected error \<Rightarrow> Resolved (fallbackImageAnalysis random1 random2 filename analysisType)
      | NeverSettled \<Rightarrow> NeverSettled)"

section \<open>Example stores\<close>

text \<open>
  The stores and payloads the concrete statements below are evaluated on: a store with
  the two seeded users, the patient of the end-to-end scenario created in it by the
  staff user, and update payloads built from the empty one.
\<close>

definition example_store0 :: Store where
  "example_store0 =
     \<lparr>users = [\<lparr>u_id = 1, u_username = ''admin'', u_role = ''admin''\<rparr>,
               \<lparr>u_id = 2, u_username = ''staff'', u_role = ''staff''\<rparr>],
      patients = [], healthHistory = [], healthPredictions = [], medicalImages = [],
      appointments = [], patients_id_seq = 1, health_history_id_seq = 1\<rparr>"

definition example_new_patient :: NewPatient where
  "example_new_patient =
     \<lparr>ip_name = ''Test User'', ip_age = 40, ip_phone = ''555'', ip_bloodSugar = 95,
      ip_bloodPressureSystolic = 118, ip_bloodPressureDiastolic = 76, ip_weight = None,
      ip_height = None, ip_medicalHistory = ''none'',
      ip_patientId = ''PT-1700000000000'', ip_createdBy = 2\<rparr>"

definition example_patient1 :: Patient where
  "example_patient1 =
     \<lparr>p_id = 1, p_patientId = ''PT-1700000000000'', p_name = ''Test User'', p_age = 40,
      p_phone = ''555'', p_bloodSugar = 95, p_bloodPressureSystolic = 118,
      p_bloodPressureDiastolic = 76, p_weight = None, p_height = None,
      p_medicalHistory = ''none'', p_createdAt = Some 1000, p_updatedAt = Some 1000,
      p_createdBy = Some 2, p_isActive = True\<rparr>"

definition example_history1 :: HealthHistory where
  "example_history1 =
     \<lparr>h_id = 1, h_patientId = 1, h_recordedBy = 2, h_bloodSugar = Some 95,
      h_bloodPressureSystolic = Some 118, h_bloodPressureDiastolic = Some 76,
      h_changeType = ''initial_record'', h_notes = Some ''Initial patient record'',
      h_timestamp = Some 1001\<rparr>"

definition example_store1 :: Store where
  "example_store1 =
     example_store0\<lparr>patients := [example_patient1], healthHistory := [example_history1],
                    patients_id_seq := 2, health_history_id_seq := 2\<rparr>"

definition example_store2 :: Store where
  "example_store2 = example_store1\<lparr>healthPredictions := [\<lparr>hp_id = 1, hp_patientId = Some 1\<rparr>]\<rparr>"

definition no_update :: PartialInsertPatient where
  "no_update =
     \<lparr>upd_name = None, upd_age = None, upd_phone = None, upd_bloodSugar = None,
      upd_bloodPressureSystolic = None, upd_bloodPressureDiastolic = None,
      upd_weight = None, upd_height = None, upd_medicalHistory = None\<rparr>"

definition example_body :: InsertPatient where
  "example_body =
     \<lparr>ip_name = ''Test User'', ip_age = 40, ip_phone = ''555'', ip_bloodSugar = 95,
      ip_bloodPressureSystolic = 118, ip_bloodPressureDiastolic = 76, ip_weight = None,
      ip_height = None, ip_medicalHistory = ''none''\<rparr>"

definition example_mem :: MemStorage where
  "example_mem =
     \<lparr>m_patients = [1 \<mapsto> example_patient1], m_healthHistories = [example_history1],
      currentHealthHistoryId = 2\<rparr>"

text \<open>A patient whose only high reading is the diastolic pressure, and one at 140 systolic.\<close>

definition example_patient_diastolic :: Patient where
  "example_patient_diastolic =
     example_patient1\<lparr>p_bloodSugar := 100, p_bloodPressureSystolic := 120,
                      p_bloodPressureDiastolic := 95\<rparr>"

definition example_patient_systolic140 :: Patient where
  "example_patient_systolic140 =
     example_patient1\<lparr>p_bloodSugar := 100, p_bloodPressureSystolic := 140,
                      p_bloodPressureDiastolic := 70\<rparr>"

definition example_store3 :: Store where
  "example_store3 = example_store1\<lparr>patients := [example_patient_diastolic]\<rparr>"

definition example_store4 :: Store where
  "example_store4 = example_store1\<lparr>patients := [example_patient_systolic140]\<rparr>"

text \<open>A patient whose name has a comma and whose history has quotes and a line feed.\<close>

definition example_patient_csv :: Patient where
  "example_patient_csv =
     example_patient1\<lparr>p_name := ''O'' @ [CHR 0x27] @ ''Brien, John'',
       p_medicalHistory := ''said '' @ [dquote] @ ''ok'' @ [dquote, LF] @ ''second line''\<rparr>"

definition example_store_csv :: Store where
  "example_store_csv = example_store1\<lparr>patients := [example_patient_csv]\<rparr>"

text \<open>
  A request for a prediction, a run of the script that exits with code 1, and a run that
  exits with code 0 after printing something that is not JSON.
\<close>

definition example_input :: HealthPredictionInput where
  "example_input =
     \<lparr>age = 70, gender = male, systolicBP = 150, diastolicBP = 85, bloodSugar = 130,
      bmi = 31\<rparr>"

definition example_failed_run :: child_process where
  "example_failed_run = Closed (Some 1) [] ''ModuleNotFoundError: No module named numpy''"

definition example_garbled_run :: child_process where
  "example_garbled_run = Closed (Some 0) ''loading model'' []"

section \<open>Properties of the classification\<close>

text \<open>
  Claim C2, as the code has it. For every triple (systolic, diastolic, sugar) the status
  derived by \<open>getVitalStatus\<close> is Critical exactly when systolic > 140 or diastolic > 90
  or sugar > 200; it is Warning exactly when that fails and systolic > 120 or
  diastolic > 80 or sugar > 140; and it is Normal exactly when both tests fail. The
  portal's copy of the helper derives the same status and variant. The other places
  that derive a status from the vitals have tests of their own: the blood-pressure
  badge is High exactly when systolic > 140 or diastolic > 90, the blood-sugar badge is
  High exactly when sugar > 140, both with the variant of a Critical status, and
  otherwise they are Normal; the statistics count a patient as critical exactly when
  the systolic pressure is at least 140 or the blood sugar at least 200.
\<close>

theorem getVitalStatus_ladder:
  "(status (getVitalStatus s d g) = ''Critical'' \<longleftrightarrow> (s > 140 \<or> d > 90 \<or> g > 200))
   \<and> (status (getVitalStatus s d g) = ''Warning'' \<longleftrightarrow>
        (\<not> (s > 140 \<or> d > 90 \<or> g > 200) \<and> (s > 120 \<or> d > 80 \<or> g > 140)))
   \<and> (status (getVitalStatus s d g) = ''Normal'' \<longleftrightarrow>
        (\<not> (s > 140 \<or> d > 90 \<or> g > 200) \<and> \<not> (s > 120 \<or> d > 80 \<or> g > 140)))
   \<and> status (getVitalStatus_portal s d g) = status (getVitalStatus s d g)
   \<and> variant (getVitalStatus_portal s d g) = variant (getVitalStatus s d g)
   \<and> (status (bloodPressure_badge s d) = ''High'' \<longleftrightarrow> (s > 140 \<or> d > 90))
   \<and> (status (bloodPressure_badge s d) = ''Normal'' \<longleftrightarrow> (s \<le> 140 \<and> d \<le> 90))
   \<and> (variant (bloodPressure_badge s d) = ''destructive'' \<longleftrightarrow> (s > 140 \<or> d > 90))
   \<and> (status (bloodSugar_badge g) = ''High'' \<longleftrightarrow> g > 140)
   \<and> (status (bloodSugar_badge g) = ''Normal'' \<longleftrightarrow> g \<le> 140)
   \<and> (variant (bloodSugar_badge g) = ''destructive'' \<longleftrightarrow> g > 140)
   \<and> (stats_critical p \<longleftrightarrow> (140 \<le> p_bloodPressureSystolic p \<or> 200 \<le> p_bloodSugar p))"
  by (simp add: getVitalStatus_def getVitalStatus_portal_def bloodPressure_badge_def
      bloodSugar_badge_def stats_critical_def not_less)

text \<open>
  Claim C2 as stated fails: the ladder is not what every place derives. At 130/85 with
  blood sugar 150 the helper says Warning (variant secondary) while the blood-sugar
  badge says High with the variant of Critical and the blood-pressure badge says
  Normal. The patient at 120/95 with blood sugar 100 is Critical for the helper and not
  a critical case for the statistics; the patient at 140/70 is a critical case for the
  statistics and Warning for the helper.
\<close>

theorem vitals_status_sites_disagree:
  "getVitalStatus 130 85 150 = \<lparr>status = ''Warning'', variant = ''secondary''\<rparr>
   \<and> bloodSugar_badge 150 = \<lparr>status = ''High'', variant = ''destructive''\<rparr>
   \<and> bloodPressure_badge 130 85 = \<lparr>status = ''Normal'', variant = ''default''\<rparr>
   \<and> status (getVitalStatus (real_of_int (p_bloodPressureSystolic example_patient_diastolic))
                (real_of_int (p_bloodPressureDiastolic example_patient_diastolic))
                (p_bloodSugar example_patient_diastolic)) = ''Critical''
   \<and> \<not> stats_critical example_patient_diastolic
   \<and> status (getVitalStatus (real_of_int (p_bloodPressureSystolic example_patient_systolic140))
                (real_of_int (p_bloodPressureDiastolic example_patient_systolic140))
                (p_bloodSugar example_patient_systolic140)) = ''Warning''
   \<and> stats_critical example_patient_systolic140"
  by (simp add: getVitalStatus_def bloodSugar_badge_def bloodPressure_badge_def
      stats_critical_def example_patient_diastolic_def example_patient_systolic140_def
      example_patient1_def)

section \<open>Properties of the record store\<close>

subsection \<open>Truthiness, lookup and the three outcomes of each operation\<close>

lemma truthy_simps [simp]:
  "truthy None = False" "truthy (Some x) = (x \<noteq> 0)"
  by (simp_all add: truthy_def)

lemma js_or_simps:
  "truthy a \<Longrightarrow> js_or a b = a" "\<not> truthy a \<Longrightarrow> js_or a b = b"
  by (simp_all add: js_or_def)

lemma p_id_set_patient [simp]: "p_id (set_patient u p) = p_id p"
  by (simp add: set_patient_def)

lemma find_map_update:
  "find (\<lambda>p. p_id p = i) (map (\<lambda>p. if p_id p = i then set_patient u p else p) ps)
     = map_option (set_patient u) (find (\<lambda>p. p_id p = i) ps)"
  by (induction ps) auto

lemma list_ex_map_update:
  "list_ex (\<lambda>p. p_id p = j) (map (\<lambda>p. if p_id p = i then set_patient u p else p) ps)
     = list_ex (\<lambda>p. p_id p = j) ps"
  by (induction ps) auto

lemma find_Some_list_ex: "find P xs = Some x \<Longrightarrow> list_ex P xs"
  by (induction xs) (auto split: if_splits)

lemma getPatient_exists: "getPatient s i = Some e \<Longrightarrow> patient_exists s i"
  by (simp add: getPatient_def patient_exists_def find_Some_list_ex)

lemma getPatient_None: "getPatient s i = None \<longleftrightarrow> \<not> patient_exists s i"
  by (auto simp: getPatient_def patient_exists_def list_ex_iff find_None_iff)

lemma updatePatient_absent:
  "\<not> patient_exists s i \<Longrightarrow> updatePatient s now i u = (Inr None, s)"
  by (simp add: updatePatient_def getPatient_None[symmetric])

lemma vitals_truthy_values: "vitals_truthy u \<Longrightarrow> \<not> no_values u"
  by (auto simp: vitals_truthy_def no_values_def nullable_def)

lemma updatePatient_falsy:
  assumes "\<not> vitals_truthy u"
  shows "healthHistory (snd (updatePatient s now i u)) = healthHistory s"
  using assms by (simp add: updatePatient_def Let_def split: option.splits)

lemma updatePatient_no_values:
  assumes "getPatient s i = Some e" and "no_values u"
  shows "updatePatient s now i u = (Inl NoValuesToSet, s)"
  using assms by (simp add: updatePatient_def)

lemma updatePatient_truthy:
  assumes "getPatient s i = Some e" and "vitals_truthy u" and "user_exists s 1"
  shows "\<exists>h. updatePatient s now i u =
           (Inr (Some (set_patient u e)),
            s\<lparr>patients := map (\<lambda>p. if p_id p = i then set_patient u p else p) (patients s),
              healthHistory := healthHistory s @ [h],
              health_history_id_seq := health_history_id_seq s + 1\<rparr>)
         \<and> h_patientId h = i \<and> h_changeType h = ''manual_edit'' \<and> h_recordedBy h = 1
         \<and> h_timestamp h = Some now
         \<and> h_bloodSugar h = js_or (upd_bloodSugar u) (Some (p_bloodSugar e))
         \<and> h_bloodPressureSystolic h =
             js_or (upd_bloodPressureSystolic u) (Some (p_bloodPressureSystolic e))
         \<and> h_bloodPressureDiastolic h =
             js_or (upd_bloodPressureDiastolic u) (Some (p_bloodPressureDiastolic e))"
proof -
  define h where "h =
     \<lparr>h_id = health_history_id_seq s, h_patientId = i, h_recordedBy = 1,
      h_bloodSugar = js_or (upd_bloodSugar u) (Some (p_bloodSugar e)),
      h_bloodPressureSystolic =
        js_or (upd_bloodPressureSystolic u) (Some (p_bloodPressureSystolic e)),
      h_bloodPressureDiastolic =
        js_or (upd_bloodPressureDiastolic u) (Some (p_bloodPressureDiastolic e)),
      h_changeType = ''manual_edit'', h_notes = Some ''Patient record updated'',
      h_timestamp = Some now\<rparr>"
  have ex: "list_ex (\<lambda>p. p_id p = i) (patients s)"
    using getPatient_exists[OF assms(1)] by (simp add: patient_exists_def)
  have f: "find (\<lambda>p. p_id p = i) (patients s) = Some e"
    using assms(1) by (simp add: getPatient_def)
  have "updatePatient s now i u =
           (Inr (Some (set_patient u e)),
            s\<lparr>patients := map (\<lambda>p. if p_id p = i then set_patient u p else p) (patients s),
              healthHistory := healthHistory s @ [h],
              health_history_id_seq := health_history_id_seq s + 1\<rparr>)"
    using assms ex f vitals_truthy_values[OF assms(2)]
    by (simp add: updatePatient_def Let_def createHealthHistory_def patient_exists_def
        user_exists_def list_ex_map_update find_map_update getPatient_def h_def)
  moreover have "h_patientId h = i \<and> h_changeType h = ''manual_edit'' \<and> h_recordedBy h = 1
         \<and> h_timestamp h = Some now
         \<and> h_bloodSugar h = js_or (upd_bloodSugar u) (Some (p_bloodSugar e))
         \<and> h_bloodPressureSystolic h =
             js_or (upd_bloodPressureSystolic u) (Some (p_bloodPressureSystolic e))
         \<and> h_bloodPressureDiastolic h =
             js_or (upd_bloodPressureDiastolic u) (Some (p_bloodPressureDiastolic e))"
    by (simp add: h_def)
  ultimately show ?thesis by blast
qed

lemma updatePatient_truthy_no_recorder:
  assumes "getPatient s i = Some e" and "vitals_truthy u" and "\<not> user_exists s 1"
  shows "updatePatient s now i u =
           (Inl ForeignKeyViolation,
            s\<lparr>patients := map (\<lambda>p. if p_id p = i then set_patient u p else p) (patients s)\<rparr>)"
  using assms vitals_truthy_values[OF assms(2)]
  by (simp add: updatePatient_def Let_def createHealthHistory_def user_exists_def)


lemma createPatient_ok:
  assumes "\<not> list_ex (\<lambda>p. p_patientId p = ip_patientId patient) (patients s)"
    and "user_exists s (ip_createdBy patient)"
  shows "\<exists>p h. createPatient s now now' patient =
           (Inr p, s\<lparr>patients := patients s @ [p],
                     patients_id_seq := patients_id_seq s + 1,
                     healthHistory := healthHistory s @ [h],
                     health_history_id_seq := health_history_id_seq s + 1\<rparr>)
         \<and> p_id p = patients_id_seq s \<and> p_patientId p = ip_patientId patient
         \<and> p_createdAt p = Some now \<and> p_createdBy p = Some (ip_createdBy patient)
         \<and> h_patientId h = patients_id_seq s \<and> h_changeType h = ''initial_record''
         \<and> h_recordedBy h = ip_createdBy patient \<and> h_timestamp h = Some now'
         \<and> h_bloodSugar h = Some (ip_bloodSugar patient)
         \<and> h_bloodPressureSystolic h = Some (ip_bloodPressureSystolic patient)
         \<and> h_bloodPressureDiastolic h = Some (ip_bloodPressureDiastolic patient)"
proof -
  define p where "p =
     \<lparr>p_id = patients_id_seq s, p_patientId = ip_patientId patient, p_name = ip_name patient,
      p_age = ip_age patient, p_phone = ip_phone patient, p_bloodSugar = ip_bloodSugar patient,
      p_bloodPressureSystolic = ip_bloodPressureSystolic patient,
      p_bloodPressureDiastolic = ip_bloodPressureDiastolic patient,
      p_weight = ip_weight patient, p_height = ip_height patient,
      p_medicalHistory = ip_medicalHistory patient, p_createdAt = Some now,
      p_updatedAt = Some now, p_createdBy = Some (ip_createdBy patient), p_isActive = True\<rparr>"
  define h where "h =
     \<lparr>h_id = health_history_id_seq s, h_patientId = patients_id_seq s,
      h_recordedBy = ip_createdBy patient, h_bloodSugar = Some (ip_bloodSugar patient),
      h_bloodPressureSystolic = Some (ip_bloodPressureSystolic patient),
      h_bloodPressureDiastolic = Some (ip_bloodPressureDiastolic patient),
      h_changeType = ''initial_record'', h_notes = Some ''Initial patient record'',
      h_timestamp = Some now'\<rparr>"
  have ins: "insertPatient s now patient =
      (Inr p, s\<lparr>patients := patients s @ [p], patients_id_seq := patients_id_seq s + 1\<rparr>)"
    using assms by (simp add: insertPatient_def Let_def p_def)
  have "createPatient s now now' patient =
           (Inr p, s\<lparr>patients := patients s @ [p],
                     patients_id_seq := patients_id_seq s + 1,
                     healthHistory := healthHistory s @ [h],
                     health_history_id_seq := health_history_id_seq s + 1\<rparr>)"
    using assms(2)
    by (simp add: createPatient_def ins createHealthHistory_def Let_def patient_exists_def
        user_exists_def) (simp add: p_def h_def)
  moreover have "p_id p = patients_id_seq s \<and> p_patientId p = ip_patientId patient
         \<and> p_createdAt p = Some now \<and> p_createdBy p = Some (ip_createdBy patient)"
    by (simp add: p_def)
  moreover have "h_patientId h = patients_id_seq s \<and> h_changeType h = ''initial_record''
         \<and> h_recordedBy h = ip_createdBy patient \<and> h_timestamp h = Some now'
         \<and> h_bloodSugar h = Some (ip_bloodSugar patient)
         \<and> h_bloodPressureSystolic h = Some (ip_bloodPressureSystolic patient)
         \<and> h_bloodPressureDiastolic h = Some (ip_bloodPressureDiastolic patient)"
    by (simp add: h_def)
  ultimately show ?thesis by blast
qed

lemma createPatient_duplicate:
  "list_ex (\<lambda>p. p_patientId p = ip_patientId patient) (patients s)
   \<Longrightarrow> createPatient s now now' patient = (Inl UniqueViolation, s)"
  by (simp add: createPatient_def insertPatient_def Let_def)

lemma createPatient_no_creator:
  "\<not> list_ex (\<lambda>p. p_patientId p = ip_patientId patient) (patients s)
   \<Longrightarrow> \<not> user_exists s (ip_createdBy patient)
   \<Longrightarrow> createPatient s now now' patient = (Inl ForeignKeyViolation, s)"
  by (simp add: createPatient_def insertPatient_def Let_def)

lemma store_ok_no_history_of_next:
  assumes "store_ok s"
  shows "getHealthHistoryByPatient s (patients_id_seq s) = []"
proof -
  have "\<not> patient_exists s (patients_id_seq s)"
    using assms by (auto simp: store_ok_def patient_exists_def list_ex_iff list_all_iff)
  then show ?thesis
    using assms
    by (auto simp: store_ok_def getHealthHistoryByPatient_def filter_empty_conv list_all_iff)
qed

lemma filter_ne_list_ex: "(filter P xs \<noteq> []) = list_ex P xs"
  by (simp add: filter_empty_conv list_ex_iff)

lemma deletePatient_history_gone:
  "getHealthHistoryByPatient (snd (deletePatient s i)) i = []"
  by (simp add: deletePatient_def Let_def getHealthHistoryByPatient_def filter_empty_conv)

lemma deletePatient_history_other:
  "j \<noteq> i \<Longrightarrow>
   getHealthHistoryByPatient (snd (deletePatient s i)) j = getHealthHistoryByPatient s j"
  by (auto simp: deletePatient_def Let_def getHealthHistoryByPatient_def intro: filter_cong)

lemma deletePatient_absent:
  "\<not> patient_exists s i \<Longrightarrow>
   deletePatient s i =
     (Inr False, s\<lparr>healthHistory := filter (\<lambda>h. h_patientId h \<noteq> i) (healthHistory s)\<rparr>)"
proof -
  assume a: "\<not> patient_exists s i"
  then have e: "filter (\<lambda>p. p_id p = i) (patients s) = []"
    by (simp add: patient_exists_def filter_empty_conv list_ex_iff)
  have k: "filter (\<lambda>p. p_id p \<noteq> i) (patients s) = patients s"
    using a by (auto simp: patient_exists_def list_ex_iff filter_id_conv)
  show ?thesis
    by (simp add: deletePatient_def Let_def e k)
qed

lemma deletePatient_absent_ok:
  assumes "store_ok s" and "\<not> patient_exists s i"
  shows "deletePatient s i = (Inr False, s)"
proof -
  have "filter (\<lambda>h. h_patientId h \<noteq> i) (healthHistory s) = healthHistory s"
    using assms by (auto simp: store_ok_def list_all_iff filter_id_conv)
  then show ?thesis
    using deletePatient_absent[OF assms(2)] by simp
qed

lemma deletePatient_removed:
  assumes "patient_exists s i" and "\<not> referenced_elsewhere s i"
  shows "deletePatient s i =
     (Inr True, s\<lparr>healthHistory := filter (\<lambda>h. h_patientId h \<noteq> i) (healthHistory s),
                  patients := filter (\<lambda>p. p_id p \<noteq> i) (patients s)\<rparr>)"
  using assms
  by (simp add: deletePatient_def Let_def patient_referenced_def referenced_elsewhere_def
      patient_exists_def filter_ne_list_ex list_ex_iff)

lemma deletePatient_refused:
  assumes "patient_exists s i" and "referenced_elsewhere s i"
  shows "deletePatient s i =
     (Inl ForeignKeyViolation,
      s\<lparr>healthHistory := filter (\<lambda>h. h_patientId h \<noteq> i) (healthHistory s)\<rparr>)"
  using assms
  by (simp add: deletePatient_def Let_def patient_referenced_def referenced_elsewhere_def
      patient_exists_def filter_ne_list_ex)


lemma p_patientId_set_patient [simp]: "p_patientId (set_patient u p) = p_patientId p"
  by (simp add: set_patient_def)

lemma map_p_id_update:
  "map p_id (map (\<lambda>p. if p_id p = i then set_patient u p else p) ps) = map p_id ps"
  by (induction ps) auto

lemma map_p_patientId_update:
  "map p_patientId (map (\<lambda>p. if p_id p = i then set_patient u p else p) ps)
     = map p_patientId ps"
  by (induction ps) auto

lemma store_ok_createPatient:
  assumes "store_ok s"
  shows "store_ok (snd (createPatient s now now' patient))"
proof (cases "list_ex (\<lambda>p. p_patientId p = ip_patientId patient) (patients s)")
  case True
  then show ?thesis using assms by (simp add: createPatient_duplicate)
next
  case False
  show ?thesis
  proof (cases "user_exists s (ip_createdBy patient)")
    case no: False
    then show ?thesis using assms False by (simp add: createPatient_no_creator)
  next
    case True
    from createPatient_ok[OF False True, of now now'] obtain p h where
      c: "createPatient s now now' patient =
           (Inr p, s\<lparr>patients := patients s @ [p],
                     patients_id_seq := patients_id_seq s + 1,
                     healthHistory := healthHistory s @ [h],
                     health_history_id_seq := health_history_id_seq s + 1\<rparr>)"
      and p: "p_id p = patients_id_seq s" "p_patientId p = ip_patientId patient"
      and h: "h_patientId h = patients_id_seq s"
      by blast
    have d1: "distinct (map p_id (patients s @ [p]))"
      using assms p by (auto simp: store_ok_def list_all_iff)
    have d2: "distinct (map p_patientId (patients s @ [p]))"
      using assms p False by (auto simp: store_ok_def list_ex_iff)
    have d3: "list_all (\<lambda>q. p_id q < patients_id_seq s + 1) (patients s @ [p])"
      using assms p by (auto simp: store_ok_def list_all_iff)
    have d4: "list_all (\<lambda>k. list_ex (\<lambda>q. p_id q = h_patientId k) (patients s @ [p]))
                (healthHistory s @ [h])"
      using assms p h by (auto simp: store_ok_def list_all_iff list_ex_iff patient_exists_def)
    show ?thesis
      using d1 d2 d3 d4 by (simp add: c store_ok_def patient_exists_def)
  qed
qed

lemma store_ok_updatePatient:
  assumes "store_ok s"
  shows "store_ok (snd (updatePatient s now i u))"
proof (cases "getPatient s i")
  case None
  then show ?thesis using assms by (simp add: updatePatient_def)
next
  case (Some e)
  have ex: "list_ex (\<lambda>p. p_id p = i) (patients s)"
    using getPatient_exists[OF Some] by (simp add: patient_exists_def)
  let ?ps = "map (\<lambda>p. if p_id p = i then set_patient u p else p) (patients s)"
  have m1: "distinct (map p_id ?ps)"
    using assms by (simp only: map_p_id_update) (simp add: store_ok_def)
  have m2: "distinct (map p_patientId ?ps)"
    using assms by (simp only: map_p_patientId_update) (simp add: store_ok_def)
  have m3: "list_all (\<lambda>p. p_id p < patients_id_seq s) ?ps"
    using assms by (auto simp: store_ok_def list_all_iff)
  have m4: "list_all (\<lambda>h. list_ex (\<lambda>p. p_id p = h_patientId h) ?ps) (healthHistory s)"
    using assms by (simp add: store_ok_def patient_exists_def list_ex_map_update)
  have base: "store_ok (s\<lparr>patients := ?ps\<rparr>)"
    using m1 m2 m3 m4 by (simp add: store_ok_def patient_exists_def del: map_map)
  show ?thesis
  proof (cases "vitals_truthy u")
    case False
    then show ?thesis
      using Some base assms by (cases "no_values u") (simp_all add: updatePatient_def Let_def)
  next
    case True
    show ?thesis
    proof (cases "user_exists s 1")
      case no: False
      then show ?thesis
        using base by (simp add: updatePatient_truthy_no_recorder[OF Some True])
    next
      case yes: True
      from updatePatient_truthy[OF Some True yes, of now] obtain h where
        c: "updatePatient s now i u =
           (Inr (Some (set_patient u e)),
            s\<lparr>patients := ?ps, healthHistory := healthHistory s @ [h],
              health_history_id_seq := health_history_id_seq s + 1\<rparr>)"
        and h: "h_patientId h = i"
        by blast
      show ?thesis
        using base ex h
        by (simp add: c store_ok_def patient_exists_def list_ex_map_update)
    qed
  qed
qed

lemma store_ok_deletePatient:
  assumes "store_ok s"
  shows "store_ok (snd (deletePatient s i))"
proof -
  have h1: "store_ok (s\<lparr>healthHistory := filter (\<lambda>h. h_patientId h \<noteq> i) (healthHistory s)\<rparr>)"
    using assms by (auto simp: store_ok_def list_all_iff patient_exists_def)
  have k1: "distinct (map p_id (filter (\<lambda>p. p_id p \<noteq> i) (patients s)))"
    using assms by (simp add: store_ok_def distinct_map_filter)
  have k2: "distinct (map p_patientId (filter (\<lambda>p. p_id p \<noteq> i) (patients s)))"
    using assms by (simp add: store_ok_def distinct_map_filter)
  have k3: "list_all (\<lambda>p. p_id p < patients_id_seq s) (filter (\<lambda>p. p_id p \<noteq> i) (patients s))"
    using assms by (auto simp: store_ok_def list_all_iff)
  have k4: "list_all (\<lambda>h. list_ex (\<lambda>p. p_id p = h_patientId h)
                           (filter (\<lambda>p. p_id p \<noteq> i) (patients s)))
              (filter (\<lambda>h. h_patientId h \<noteq> i) (healthHistory s))"
    using assms
    by (fastforce simp: store_ok_def list_all_iff patient_exists_def list_ex_iff)
  have h2: "store_ok (s\<lparr>healthHistory := filter (\<lambda>h. h_patientId h \<noteq> i) (healthHistory s),
                        patients := filter (\<lambda>p. p_id p \<noteq> i) (patients s)\<rparr>)"
    using k1 k2 k3 k4 by (simp add: store_ok_def patient_exists_def)
  show ?thesis
  proof (cases "patient_exists s i")
    case False
    then show ?thesis using h1 by (simp add: deletePatient_absent)
  next
    case True
    then show ?thesis
      using h1 h2
      by (cases "referenced_elsewhere s i")
         (simp_all add: deletePatient_removed deletePatient_refused)
  qed
qed

text \<open>What a call that returns a patient has done.\<close>

lemma createPatient_Inr:
  assumes "createPatient s now now' patient = (Inr p, s')"
  shows "\<exists>h. s' = s\<lparr>patients := patients s @ [p],
                     patients_id_seq := patients_id_seq s + 1,
                     healthHistory := healthHistory s @ [h],
                     health_history_id_seq := health_history_id_seq s + 1\<rparr>
         \<and> p_id p = patients_id_seq s \<and> p_patientId p = ip_patientId patient
         \<and> h_patientId h = patients_id_seq s \<and> h_changeType h = ''initial_record''
         \<and> h_recordedBy h = ip_createdBy patient"
proof -
  have n: "\<not> list_ex (\<lambda>q. p_patientId q = ip_patientId patient) (patients s)"
  proof
    assume "list_ex (\<lambda>q. p_patientId q = ip_patientId patient) (patients s)"
    from createPatient_duplicate[OF this, of now now'] assms show False by simp
  qed
  have u: "user_exists s (ip_createdBy patient)"
  proof (rule ccontr)
    assume "\<not> user_exists s (ip_createdBy patient)"
    from createPatient_no_creator[OF n this, of now now'] assms show False by simp
  qed
  from createPatient_ok[OF n u, of now now'] obtain p0 h where
    c0: "createPatient s now now' patient =
           (Inr p0, s\<lparr>patients := patients s @ [p0],
                     patients_id_seq := patients_id_seq s + 1,
                     healthHistory := healthHistory s @ [h],
                     health_history_id_seq := health_history_id_seq s + 1\<rparr>)"
    and p0: "p_id p0 = patients_id_seq s" "p_patientId p0 = ip_patientId patient"
    and h: "h_patientId h = patients_id_seq s" "h_changeType h = ''initial_record''"
      "h_recordedBy h = ip_createdBy patient"
    by blast
  from trans[OF assms[symmetric] c0] have pe: "p = p0"
    and se: "s' = s\<lparr>patients := patients s @ [p0],
                     patients_id_seq := patients_id_seq s + 1,
                     healthHistory := healthHistory s @ [h],
                     health_history_id_seq := health_history_id_seq s + 1\<rparr>"
    by simp_all
  show ?thesis
    using pe se p0 h by blast
qed

lemma updatePatient_Inr:
  assumes "getPatient s i = Some e" and "vitals_truthy u"
    and "updatePatient s now i u = (Inr r, s')"
  shows "\<exists>h. r = Some (set_patient u e)
         \<and> healthHistory s' = healthHistory s @ [h]
         \<and> h_patientId h = i \<and> h_changeType h = ''manual_edit''
         \<and> h_bloodSugar h = js_or (upd_bloodSugar u) (Some (p_bloodSugar e))
         \<and> h_bloodPressureSystolic h =
             js_or (upd_bloodPressureSystolic u) (Some (p_bloodPressureSystolic e))
         \<and> h_bloodPressureDiastolic h =
             js_or (upd_bloodPressureDiastolic u) (Some (p_bloodPressureDiastolic e))"
proof -
  have u1: "user_exists s 1"
  proof (rule ccontr)
    assume "\<not> user_exists s 1"
    from updatePatient_truthy_no_recorder[OF assms(1,2) this, of now] assms(3)
    show False by simp
  qed
  from updatePatient_truthy[OF assms(1,2) u1, of now] obtain h where
    c: "updatePatient s now i u =
           (Inr (Some (set_patient u e)),
            s\<lparr>patients := map (\<lambda>p. if p_id p = i then set_patient u p else p) (patients s),
              healthHistory := healthHistory s @ [h],
              health_history_id_seq := health_history_id_seq s + 1\<rparr>)"
    and h: "h_patientId h = i" "h_changeType h = ''manual_edit''"
      "h_bloodSugar h = js_or (upd_bloodSugar u) (Some (p_bloodSugar e))"
      "h_bloodPressureSystolic h =
             js_or (upd_bloodPressureSystolic u) (Some (p_bloodPressureSystolic e))"
      "h_bloodPressureDiastolic h =
             js_or (upd_bloodPressureDiastolic u) (Some (p_bloodPressureDiastolic e))"
    by blast
  from trans[OF assms(3)[symmetric] c] have "r = Some (set_patient u e)"
    and "s' = s\<lparr>patients := map (\<lambda>p. if p_id p = i then set_patient u p else p) (patients s),
              healthHistory := healthHistory s @ [h],
              health_history_id_seq := health_history_id_seq s + 1\<rparr>"
    by simp_all
  then have "r = Some (set_patient u e)" and "healthHistory s' = healthHistory s @ [h]"
    by simp_all
  then show ?thesis using h by blast
qed


subsection \<open>The example stores\<close>

lemmas example_defs =
  example_store0_def example_new_patient_def example_patient1_def example_history1_def
  example_store1_def example_store2_def no_update_def example_body_def
  example_patient_diastolic_def example_patient_systolic140_def example_store3_def
  example_store4_def example_patient_csv_def example_store_csv_def

lemma example_create:
  "createPatient example_store0 1000 1001 example_new_patient
     = (Inr example_patient1, example_store1)"
  by (simp add: example_defs createPatient_def insertPatient_def createHealthHistory_def
      Let_def user_exists_def patient_exists_def)

lemma example_store_ok:
  "store_ok example_store0" "store_ok example_store1" "store_ok example_store2"
  by (simp_all add: example_defs store_ok_def patient_exists_def)

lemma example_update_210:
  "updatePatient example_store1 2000 1 (no_update\<lparr>upd_bloodSugar := Some 210\<rparr>) =
     (Inr (Some (example_patient1\<lparr>p_bloodSugar := 210\<rparr>)),
      example_store1\<lparr>patients := [example_patient1\<lparr>p_bloodSugar := 210\<rparr>],
        healthHistory := [example_history1,
          \<lparr>h_id = 2, h_patientId = 1, h_recordedBy = 1, h_bloodSugar = Some 210,
           h_bloodPressureSystolic = Some 118, h_bloodPressureDiastolic = Some 76,
           h_changeType = ''manual_edit'', h_notes = Some ''Patient record updated'',
           h_timestamp = Some 2000\<rparr>],
        health_history_id_seq := 3\<rparr>)"
  by (simp add: example_defs updatePatient_def getPatient_def createHealthHistory_def
      Let_def user_exists_def patient_exists_def vitals_truthy_def set_patient_def js_or_def
      nullable_def no_values_def)


subsection \<open>History entries on creation and update\<close>

lemma updatePatient_falsy_present:
  assumes "getPatient s i = Some e" and "\<not> vitals_truthy u" and "\<not> no_values u"
  shows "updatePatient s now i u =
           (Inr (Some (set_patient u e)),
            s\<lparr>patients := map (\<lambda>p. if p_id p = i then set_patient u p else p) (patients s)\<rparr>)"
  using assms by (simp add: updatePatient_def Let_def find_map_update getPatient_def)

lemma patient_exists_getPatient: "patient_exists s i \<Longrightarrow> \<exists>e. getPatient s i = Some e"
  using getPatient_None[of s i] by (cases "getPatient s i") auto

lemma history_append_other:
  "getHealthHistoryByPatient (s\<lparr>patients := ps, healthHistory := healthHistory s @ [h],
       health_history_id_seq := n\<rparr>) i
     = getHealthHistoryByPatient s i @ (if h_patientId h = i then [h] else [])"
  by (simp add: getHealthHistoryByPatient_def)

text \<open>
  Claim C1, as the code has it. After a creation that the store accepts, the history of
  the new patient has gained one entry, of change type \<open>initial_record\<close>; in a
  consistent store it is the patient's only entry. After an update of an existing
  patient that completes and in which at least one vitals field is truthy (a number
  other than 0), the patient's history has gained exactly one entry, of change type
  \<open>manual_edit\<close>. An update in which every vitals field is absent, \<open>null\<close> or 0 leaves
  every patient's history as it was.
\<close>

theorem history_entries_on_create_and_update:
  "(createPatient s now now' patient = (Inr p, s')
     \<longrightarrow> (\<exists>h. getHealthHistoryByPatient s' (p_id p)
                 = getHealthHistoryByPatient s (p_id p) @ [h]
              \<and> h_changeType h = ''initial_record''))
   \<and> (store_ok s \<and> createPatient s now now' patient = (Inr p, s')
     \<longrightarrow> (\<exists>h. getHealthHistoryByPatient s' (p_id p) = [h]
              \<and> h_changeType h = ''initial_record''))
   \<and> (patient_exists s2 i \<and> vitals_truthy u \<and> updatePatient s2 t i u = (Inr r, s2')
     \<longrightarrow> (\<exists>h. getHealthHistoryByPatient s2' i = getHealthHistoryByPatient s2 i @ [h]
              \<and> h_changeType h = ''manual_edit''))
   \<and> (\<not> vitals_truthy v
     \<longrightarrow> getHealthHistoryByPatient (snd (updatePatient s3 t3 j v)) k
           = getHealthHistoryByPatient s3 k)"
proof (intro conjI impI)
  assume "createPatient s now now' patient = (Inr p, s')"
  from createPatient_Inr[OF this] obtain h where
    s': "s' = s\<lparr>patients := patients s @ [p],
                     patients_id_seq := patients_id_seq s + 1,
                     healthHistory := healthHistory s @ [h],
                     health_history_id_seq := health_history_id_seq s + 1\<rparr>"
    and h: "p_id p = patients_id_seq s" "h_patientId h = patients_id_seq s"
      "h_changeType h = ''initial_record''"
    by blast
  have "getHealthHistoryByPatient s' (p_id p) = getHealthHistoryByPatient s (p_id p) @ [h]"
    using h by (simp add: s' getHealthHistoryByPatient_def)
  then show "\<exists>h. getHealthHistoryByPatient s' (p_id p)
                 = getHealthHistoryByPatient s (p_id p) @ [h]
              \<and> h_changeType h = ''initial_record''"
    using h by blast
next
  assume a: "store_ok s \<and> createPatient s now now' patient = (Inr p, s')"
  from createPatient_Inr[OF a[THEN conjunct2]] obtain h where
    s': "s' = s\<lparr>patients := patients s @ [p],
                     patients_id_seq := patients_id_seq s + 1,
                     healthHistory := healthHistory s @ [h],
                     health_history_id_seq := health_history_id_seq s + 1\<rparr>"
    and h: "p_id p = patients_id_seq s" "h_patientId h = patients_id_seq s"
      "h_changeType h = ''initial_record''"
    by blast
  have "getHealthHistoryByPatient s (patients_id_seq s) = []"
    using a by (simp add: store_ok_no_history_of_next)
  then have "getHealthHistoryByPatient s' (p_id p) = [h]"
    using h by (simp add: s' getHealthHistoryByPatient_def)
  then show "\<exists>h. getHealthHistoryByPatient s' (p_id p) = [h]
              \<and> h_changeType h = ''initial_record''"
    using h by blast
next
  assume a: "patient_exists s2 i \<and> vitals_truthy u \<and> updatePatient s2 t i u = (Inr r, s2')"
  then obtain e where e: "getPatient s2 i = Some e"
    using patient_exists_getPatient by blast
  from updatePatient_Inr[OF e] a obtain h where
    h: "healthHistory s2' = healthHistory s2 @ [h]" "h_patientId h = i"
      "h_changeType h = ''manual_edit''"
    by blast
  have "getHealthHistoryByPatient s2' i = getHealthHistoryByPatient s2 i @ [h]"
    using h by (simp add: getHealthHistoryByPatient_def)
  then show "\<exists>h. getHealthHistoryByPatient s2' i = getHealthHistoryByPatient s2 i @ [h]
              \<and> h_changeType h = ''manual_edit''"
    using h by blast
next
  assume "\<not> vitals_truthy v"
  then have "healthHistory (snd (updatePatient s3 t3 j v)) = healthHistory s3"
    by (rule updatePatient_falsy)
  then show "getHealthHistoryByPatient (snd (updatePatient s3 t3 j v)) k
           = getHealthHistoryByPatient s3 k"
    by (simp add: getHealthHistoryByPatient_def)
qed

text \<open>
  On the example stores: the creation of the scenario's patient, an update of its blood
  sugar to 210, and an update of its name only.
\<close>

theorem history_entries_on_create_and_update_witness:
  "store_ok example_store0
   \<and> createPatient example_store0 1000 1001 example_new_patient
       = (Inr example_patient1, example_store1)
   \<and> (\<exists>h. getHealthHistoryByPatient example_store1 (p_id example_patient1) = [h]
          \<and> h_changeType h = ''initial_record'')
   \<and> patient_exists example_store1 1
   \<and> vitals_truthy (no_update\<lparr>upd_bloodSugar := Some 210\<rparr>)
   \<and> (\<exists>r s'. updatePatient example_store1 2000 1 (no_update\<lparr>upd_bloodSugar := Some 210\<rparr>)
                 = (Inr r, s')
          \<and> (\<exists>h. getHealthHistoryByPatient s' 1
                    = getHealthHistoryByPatient example_store1 1 @ [h]
                 \<and> h_changeType h = ''manual_edit''))
   \<and> \<not> vitals_truthy (no_update\<lparr>upd_name := Some ''Test User II''\<rparr>)
   \<and> getHealthHistoryByPatient
         (snd (updatePatient example_store1 3000 1 (no_update\<lparr>upd_name := Some ''Test User II''\<rparr>)))
         1
       = getHealthHistoryByPatient example_store1 1"
proof -
  let ?u = "no_update\<lparr>upd_bloodSugar := Some 210\<rparr>"
  let ?v = "no_update\<lparr>upd_name := Some ''Test User II''\<rparr>"
  let ?p = "example_patient1\<lparr>p_bloodSugar := 210\<rparr>"
  let ?s = "example_store1\<lparr>patients := [?p],
        healthHistory := [example_history1,
          \<lparr>h_id = 2, h_patientId = 1, h_recordedBy = 1, h_bloodSugar = Some 210,
           h_bloodPressureSystolic = Some 118, h_bloodPressureDiastolic = Some 76,
           h_changeType = ''manual_edit'', h_notes = Some ''Patient record updated'',
           h_timestamp = Some 2000\<rparr>],
        health_history_id_seq := 3\<rparr>"
  note t1 = history_entries_on_create_and_update[of example_store0 1000 1001 example_new_patient example_patient1
      example_store1 example_store1 1 ?u 2000 "Some ?p" ?s ?v example_store1 3000 1 1]
  have h1: "store_ok example_store0" by (rule example_store_ok)
  have h2: "patient_exists example_store1 1 \<and> vitals_truthy ?u"
    by (simp add: example_defs patient_exists_def vitals_truthy_def nullable_def)
  have h3: "\<not> vitals_truthy ?v"
    by (simp add: example_defs vitals_truthy_def nullable_def)
  have c1: "\<exists>h. getHealthHistoryByPatient example_store1 (p_id example_patient1) = [h]
          \<and> h_changeType h = ''initial_record''"
    using t1 h1 example_create by blast
  have c2: "\<exists>h. getHealthHistoryByPatient ?s 1
                    = getHealthHistoryByPatient example_store1 1 @ [h]
                 \<and> h_changeType h = ''manual_edit''"
    using t1 h2 example_update_210 by blast
  have c3: "getHealthHistoryByPatient (snd (updatePatient example_store1 3000 1 ?v)) 1
       = getHealthHistoryByPatient example_store1 1"
    using t1 h3 by blast
  show ?thesis
    using h1 h2 h3 example_create example_update_210 c1 c2 c3 by blast
qed

text \<open>
  Claim C1 as stated fails: the payload \<open>{bloodSugar: 0}\<close> includes a vitals field and
  the update is applied (the stored blood sugar becomes 0), yet the patient has one
  history entry before it and one after it.
\<close>

theorem update_with_zero_vital_adds_no_entry:
  "upd_bloodSugar (no_update\<lparr>upd_bloodSugar := Some 0\<rparr>) = Some 0
   \<and> patient_exists example_store1 1
   \<and> fst (updatePatient example_store1 2000 1 (no_update\<lparr>upd_bloodSugar := Some 0\<rparr>))
       = Inr (Some (example_patient1\<lparr>p_bloodSugar := 0\<rparr>))
   \<and> length (getHealthHistoryByPatient example_store1 1) = 1
   \<and> length (getHealthHistoryByPatient
        (snd (updatePatient example_store1 2000 1 (no_update\<lparr>upd_bloodSugar := Some 0\<rparr>))) 1) = 1"
  by (simp add: example_defs updatePatient_def getPatient_def Let_def patient_exists_def
      vitals_truthy_def set_patient_def nullable_def getHealthHistoryByPatient_def
      no_values_def)

subsection \<open>Deleting a patient\<close>

lemma patient_exists_filter_ne:
  "patient_exists (s\<lparr>healthHistory := hs, patients := filter (\<lambda>p. p_id p \<noteq> i) (patients s)\<rparr>) i
     = False"
  by (simp add: patient_exists_def list_ex_iff)

text \<open>
  Claim C4, as the code has it. \<open>deletePatient\<close> runs two statements with no
  transaction around them. After it no history row of the patient remains, and the
  history of every other patient is untouched. For an id that no patient has it returns
  \<open>false\<close> and keeps the patients (and, in a consistent store, changes nothing). For an
  existing patient that no prediction, image or appointment references it returns
  \<open>true\<close> and the patient is gone. For an existing patient that is still referenced
  the second statement is refused: the error is rethrown and the patient row stays,
  with its history already deleted.
\<close>

theorem deletePatient_cascade_without_transaction:
  "getHealthHistoryByPatient (snd (deletePatient s i)) i = []
   \<and> (j \<noteq> i \<longrightarrow>
        getHealthHistoryByPatient (snd (deletePatient s i)) j = getHealthHistoryByPatient s j)
   \<and> (\<not> patient_exists s i \<longrightarrow>
        fst (deletePatient s i) = Inr False
        \<and> patients (snd (deletePatient s i)) = patients s)
   \<and> (\<not> patient_exists s i \<and> store_ok s \<longrightarrow> deletePatient s i = (Inr False, s))
   \<and> (patient_exists s i \<and> \<not> referenced_elsewhere s i \<longrightarrow>
        fst (deletePatient s i) = Inr True
        \<and> \<not> patient_exists (snd (deletePatient s i)) i)
   \<and> (patient_exists s i \<and> referenced_elsewhere s i \<longrightarrow>
        fst (deletePatient s i) = Inl ForeignKeyViolation
        \<and> patients (snd (deletePatient s i)) = patients s)"
proof (intro conjI impI)
  show "getHealthHistoryByPatient (snd (deletePatient s i)) i = []"
    by (rule deletePatient_history_gone)
next
  assume "j \<noteq> i"
  then show "getHealthHistoryByPatient (snd (deletePatient s i)) j = getHealthHistoryByPatient s j"
    by (rule deletePatient_history_other)
next
  assume a: "\<not> patient_exists s i"
  show "fst (deletePatient s i) = Inr False"
    by (simp add: deletePatient_absent[OF a])
  show "patients (snd (deletePatient s i)) = patients s"
    by (simp add: deletePatient_absent[OF a])
next
  assume "\<not> patient_exists s i \<and> store_ok s"
  then show "deletePatient s i = (Inr False, s)"
    by (simp add: deletePatient_absent_ok)
next
  assume a: "patient_exists s i \<and> \<not> referenced_elsewhere s i"
  then have d: "deletePatient s i =
     (Inr True, s\<lparr>healthHistory := filter (\<lambda>h. h_patientId h \<noteq> i) (healthHistory s),
                  patients := filter (\<lambda>p. p_id p \<noteq> i) (patients s)\<rparr>)"
    by (simp add: deletePatient_removed)
  show "fst (deletePatient s i) = Inr True" by (simp add: d)
  show "\<not> patient_exists (snd (deletePatient s i)) i"
    by (simp add: d patient_exists_filter_ne)
next
  assume a: "patient_exists s i \<and> referenced_elsewhere s i"
  then have d: "deletePatient s i =
     (Inl ForeignKeyViolation,
      s\<lparr>healthHistory := filter (\<lambda>h. h_patientId h \<noteq> i) (healthHistory s)\<rparr>)"
    by (simp add: deletePatient_refused)
  show "fst (deletePatient s i) = Inl ForeignKeyViolation" by (simp add: d)
  show "patients (snd (deletePatient s i)) = patients s" by (simp add: d)
qed

text \<open>
  The cases on the example stores: an unknown id, the patient of the scenario, and the
  same patient once a prediction refers to it.
\<close>

theorem deletePatient_cascade_without_transaction_witness:
  "(2::int) \<noteq> 1
   \<and> getHealthHistoryByPatient (snd (deletePatient example_store1 1)) 2
       = getHealthHistoryByPatient example_store1 2
   \<and> \<not> patient_exists example_store1 7 \<and> store_ok example_store1
   \<and> fst (deletePatient example_store1 7) = Inr False
   \<and> deletePatient example_store1 7 = (Inr False, example_store1)
   \<and> patient_exists example_store1 1 \<and> \<not> referenced_elsewhere example_store1 1
   \<and> fst (deletePatient example_store1 1) = Inr True
   \<and> \<not> patient_exists (snd (deletePatient example_store1 1)) 1
   \<and> getHealthHistoryByPatient (snd (deletePatient example_store1 1)) 1 = []
   \<and> patient_exists example_store2 1 \<and> referenced_elsewhere example_store2 1
   \<and> fst (deletePatient example_store2 1) = Inl ForeignKeyViolation
   \<and> patients (snd (deletePatient example_store2 1)) = patients example_store2"
proof -
  have h1: "\<not> patient_exists example_store1 7 \<and> store_ok example_store1"
    by (simp add: example_defs patient_exists_def store_ok_def)
  have h2: "patient_exists example_store1 1 \<and> \<not> referenced_elsewhere example_store1 1"
    by (simp add: example_defs patient_exists_def referenced_elsewhere_def)
  have h3: "patient_exists example_store2 1 \<and> referenced_elsewhere example_store2 1"
    by (simp add: example_defs patient_exists_def referenced_elsewhere_def)
  have h4: "(2::int) \<noteq> 1" by simp
  show ?thesis
    using h1 h2 h3 h4 deletePatient_cascade_without_transaction[of example_store1 7 2] deletePatient_cascade_without_transaction[of example_store1 1 2]
      deletePatient_cascade_without_transaction[of example_store2 1 2]
    by simp
qed

text \<open>
  Claim C4 as stated fails: the deletion is not atomic. With a saved prediction for the
  patient, \<open>deletePatient\<close> fails, the patient row is still there, and the patient's
  history entry has been deleted all the same.
\<close>

theorem deletePatient_not_atomic:
  "fst (deletePatient example_store2 1) = Inl ForeignKeyViolation
   \<and> getPatient (snd (deletePatient example_store2 1)) 1 = Some example_patient1
   \<and> getHealthHistoryByPatient example_store2 1 = [example_history1]
   \<and> getHealthHistoryByPatient (snd (deletePatient example_store2 1)) 1 = []"
  by (simp add: example_defs deletePatient_def Let_def patient_referenced_def
      referenced_elsewhere_def getPatient_def getHealthHistoryByPatient_def)

subsection \<open>Who recorded an entry, and the order of a patient's history\<close>

text \<open>
  Claim C5 at a concrete input. The staff user (id 2) created the patient, so the initial
  entry is recorded by 2. The same user then updates the blood sugar to 210 through the
  route, which passes the user's id as third argument: the new entry is recorded by
  user 1, the constant the method writes.
\<close>

theorem update_entry_recorded_by_user_1:
  "map h_recordedBy (getHealthHistoryByPatient
      (snd (storage_updatePatient example_store1 2000 1 (no_update\<lparr>upd_bloodSugar := Some 210\<rparr>) 2))
      1) = [2, 1]"
  unfolding storage_updatePatient_def example_update_210
  by (simp add: getHealthHistoryByPatient_def example_defs)

text \<open>
  Claim C6 at a concrete input. The patient's initial entry has timestamp 1001 and the
  entry of a later update has timestamp 2000: the query returns them in this order,
  the older entry first.
\<close>

theorem history_returned_oldest_first:
  "map h_timestamp (getHealthHistoryByPatient
      (snd (updatePatient example_store1 2000 1 (no_update\<lparr>upd_bloodSugar := Some 210\<rparr>)))
      1) = [Some 1001, Some 2000]"
  unfolding example_update_210
  by (simp add: getHealthHistoryByPatient_def example_defs)

text \<open>
  The in-memory sibling returns a patient's history newest first and records the user
  it is given, as the same scenario shows.
\<close>

lemma mem_history_newest_first:
  "sorted_wrt (\<lambda>a b. time_or_0 a \<ge> time_or_0 b) (mem_getHealthHistoryByPatient m i)"
proof -
  have "sorted (map (\<lambda>h. - time_or_0 h) (mem_getHealthHistoryByPatient m i))"
    by (simp add: mem_getHealthHistoryByPatient_def)
  then show ?thesis by (simp add: sorted_map)
qed

lemma mem_history_example:
  "map h_timestamp (mem_getHealthHistoryByPatient
      (snd (mem_updatePatient example_mem 1500 2000 1 (no_update\<lparr>upd_bloodSugar := Some 210\<rparr>)
              (Some 2))) 1)
     = [Some 2000, Some 1001]
   \<and> map h_recordedBy (mem_getHealthHistoryByPatient
      (snd (mem_updatePatient example_mem 1500 2000 1 (no_update\<lparr>upd_bloodSugar := Some 210\<rparr>)
              (Some 2))) 1)
     = [2, 2]"
  by (simp add: mem_getHealthHistoryByPatient_def mem_updatePatient_def
      mem_createHealthHistory_def example_defs example_mem_def Let_def time_or_0_def js_or_def)
text \<open>The recorder passed by the route has no effect on the result.\<close>

lemma updatePatient_ignores_recorder:
  "storage_updatePatient s now i u a = storage_updatePatient s now i u b"
  by (simp add: storage_updatePatient_def)

subsection \<open>Truthiness decides whether and what an update records\<close>

lemma mem_updatePatient_falsy:
  assumes "\<not> truthy (upd_bloodSugar u)" and "\<not> truthy (upd_bloodPressureSystolic u)"
    and "\<not> truthy (upd_bloodPressureDiastolic u)"
  shows "m_healthHistories (snd (mem_updatePatient m now now' i u r)) = m_healthHistories m"
  using assms
  by (simp add: mem_updatePatient_def Let_def split: option.splits)

lemma mem_updatePatient_truthy:
  assumes "m_patients m i = Some e" and "r \<noteq> 0"
    and "truthy (upd_bloodSugar u) \<or> truthy (upd_bloodPressureSystolic u)
         \<or> truthy (upd_bloodPressureDiastolic u)"
  shows "\<exists>h. m_healthHistories (snd (mem_updatePatient m now now' i u (Some r)))
               = m_healthHistories m @ [h]
         \<and> h_patientId h = i \<and> h_changeType h = ''manual_edit'' \<and> h_recordedBy h = r
         \<and> h_bloodSugar h = js_or (upd_bloodSugar u) (Some (p_bloodSugar e))
         \<and> h_bloodPressureSystolic h =
             js_or (upd_bloodPressureSystolic u) (Some (p_bloodPressureSystolic e))
         \<and> h_bloodPressureDiastolic h =
             js_or (upd_bloodPressureDiastolic u) (Some (p_bloodPressureDiastolic e))"
  using assms
  by (simp add: mem_updatePatient_def mem_createHealthHistory_def Let_def)

text \<open>
  Claim C10, for \<open>DatabaseStorage.updatePatient\<close> and for \<open>MemStorage.updatePatient\<close>. If
  every vitals field of the payload is falsy (absent, \<open>null\<close> or 0), the update creates
  no history entry. When an entry is recorded, each of its vitals is the provided value
  if that is truthy and the patient's prior value otherwise; so a blood sugar explicitly
  updated to 0 is recorded as the prior blood sugar. A value is truthy exactly when it
  is present and not 0.
\<close>

theorem updatePatient_records_by_truthiness:
  "(\<not> truthy (upd_bloodPressureSystolic u) \<and> \<not> truthy (upd_bloodPressureDiastolic u)
      \<and> \<not> truthy (upd_bloodSugar u) \<and> \<not> truthy (nullable (upd_weight u))
      \<and> \<not> truthy (nullable (upd_height u))
     \<longrightarrow> healthHistory (snd (updatePatient s now i u)) = healthHistory s
         \<and> m_healthHistories (snd (mem_updatePatient m now now' i u r)) = m_healthHistories m)
   \<and> (getPatient s2 j = Some e \<and> vitals_truthy v \<and> updatePatient s2 t j v = (Inr r', s2')
     \<longrightarrow> (\<exists>h. healthHistory s2' = healthHistory s2 @ [h]
            \<and> h_bloodSugar h =
                (if truthy (upd_bloodSugar v) then upd_bloodSugar v else Some (p_bloodSugar e))
            \<and> h_bloodPressureSystolic h =
                (if truthy (upd_bloodPressureSystolic v) then upd_bloodPressureSystolic v
                 else Some (p_bloodPressureSystolic e))
            \<and> h_bloodPressureDiastolic h =
                (if truthy (upd_bloodPressureDiastolic v) then upd_bloodPressureDiastolic v
                 else Some (p_bloodPressureDiastolic e))
            \<and> (upd_bloodSugar v = Some 0 \<longrightarrow> h_bloodSugar h = Some (p_bloodSugar e))))
   \<and> (m_patients m2 j = Some e \<and> r2 \<noteq> 0
        \<and> (truthy (upd_bloodSugar v) \<or> truthy (upd_bloodPressureSystolic v)
            \<or> truthy (upd_bloodPressureDiastolic v))
     \<longrightarrow> (\<exists>h. m_healthHistories (snd (mem_updatePatient m2 t t' j v (Some r2)))
                 = m_healthHistories m2 @ [h]
            \<and> h_bloodSugar h =
                (if truthy (upd_bloodSugar v) then upd_bloodSugar v else Some (p_bloodSugar e))
            \<and> h_bloodPressureSystolic h =
                (if truthy (upd_bloodPressureSystolic v) then upd_bloodPressureSystolic v
                 else Some (p_bloodPressureSystolic e))
            \<and> h_bloodPressureDiastolic h =
                (if truthy (upd_bloodPressureDiastolic v) then upd_bloodPressureDiastolic v
                 else Some (p_bloodPressureDiastolic e))))
   \<and> (truthy w \<longleftrightarrow> (\<exists>x. w = Some x \<and> x \<noteq> (0::real)))"
proof (intro conjI impI)
  assume a: "\<not> truthy (upd_bloodPressureSystolic u) \<and> \<not> truthy (upd_bloodPressureDiastolic u)
      \<and> \<not> truthy (upd_bloodSugar u) \<and> \<not> truthy (nullable (upd_weight u))
      \<and> \<not> truthy (nullable (upd_height u))"
  then have "\<not> vitals_truthy u" by (simp add: vitals_truthy_def)
  then show "healthHistory (snd (updatePatient s now i u)) = healthHistory s"
    by (rule updatePatient_falsy)
  show "m_healthHistories (snd (mem_updatePatient m now now' i u r)) = m_healthHistories m"
    using a by (simp add: mem_updatePatient_falsy)
next
  assume a: "getPatient s2 j = Some e \<and> vitals_truthy v \<and> updatePatient s2 t j v = (Inr r', s2')"
  then obtain h where
    c: "healthHistory s2' = healthHistory s2 @ [h]"
    and h: "h_bloodSugar h = js_or (upd_bloodSugar v) (Some (p_bloodSugar e))"
      "h_bloodPressureSystolic h =
             js_or (upd_bloodPressureSystolic v) (Some (p_bloodPressureSystolic e))"
      "h_bloodPressureDiastolic h =
             js_or (upd_bloodPressureDiastolic v) (Some (p_bloodPressureDiastolic e))"
    using updatePatient_Inr[of s2 j e v t r' s2'] by blast
  have z: "upd_bloodSugar v = Some 0 \<longrightarrow> h_bloodSugar h = Some (p_bloodSugar e)"
    using h(1) by (simp add: js_or_def)
  show "\<exists>h. healthHistory s2' = healthHistory s2 @ [h]
            \<and> h_bloodSugar h =
                (if truthy (upd_bloodSugar v) then upd_bloodSugar v else Some (p_bloodSugar e))
            \<and> h_bloodPressureSystolic h =
                (if truthy (upd_bloodPressureSystolic v) then upd_bloodPressureSystolic v
                 else Some (p_bloodPressureSystolic e))
            \<and> h_bloodPressureDiastolic h =
                (if truthy (upd_bloodPressureDiastolic v) then upd_bloodPressureDiastolic v
                 else Some (p_bloodPressureDiastolic e))
            \<and> (upd_bloodSugar v = Some 0 \<longrightarrow> h_bloodSugar h = Some (p_bloodSugar e))"
    using c h z unfolding js_or_def by blast
next
  assume a: "m_patients m2 j = Some e \<and> r2 \<noteq> 0
        \<and> (truthy (upd_bloodSugar v) \<or> truthy (upd_bloodPressureSystolic v)
            \<or> truthy (upd_bloodPressureDiastolic v))"
  then obtain h where
    c: "m_healthHistories (snd (mem_updatePatient m2 t t' j v (Some r2)))
          = m_healthHistories m2 @ [h]"
    and h: "h_bloodSugar h = js_or (upd_bloodSugar v) (Some (p_bloodSugar e))"
      "h_bloodPressureSystolic h =
             js_or (upd_bloodPressureSystolic v) (Some (p_bloodPressureSystolic e))"
      "h_bloodPressureDiastolic h =
             js_or (upd_bloodPressureDiastolic v) (Some (p_bloodPressureDiastolic e))"
    using mem_updatePatient_truthy[of m2 j e r2 v t t'] by blast
  show "\<exists>h. m_healthHistories (snd (mem_updatePatient m2 t t' j v (Some r2)))
                 = m_healthHistories m2 @ [h]
            \<and> h_bloodSugar h =
                (if truthy (upd_bloodSugar v) then upd_bloodSugar v else Some (p_bloodSugar e))
            \<and> h_bloodPressureSystolic h =
                (if truthy (upd_bloodPressureSystolic v) then upd_bloodPressureSystolic v
                 else Some (p_bloodPressureSystolic e))
            \<and> h_bloodPressureDiastolic h =
                (if truthy (upd_bloodPressureDiastolic v) then upd_bloodPressureDiastolic v
                 else Some (p_bloodPressureDiastolic e))"
    using c h unfolding js_or_def by blast
next
  show "truthy w \<longleftrightarrow> (\<exists>x. w = Some x \<and> x \<noteq> (0::real))"
    by (cases w) simp_all
qed

text \<open>
  On the example stores: \<open>{bloodSugar: 0}\<close> records nothing, and
  \<open>{bloodSugar: 0, bloodPressureSystolic: 130}\<close> records the prior blood sugar 95
  beside the new systolic pressure, in both implementations.
\<close>

theorem updatePatient_records_by_truthiness_witness:
  "\<not> truthy (upd_bloodPressureSystolic (no_update\<lparr>upd_bloodSugar := Some 0\<rparr>))
   \<and> \<not> truthy (upd_bloodPressureDiastolic (no_update\<lparr>upd_bloodSugar := Some 0\<rparr>))
   \<and> \<not> truthy (upd_bloodSugar (no_update\<lparr>upd_bloodSugar := Some 0\<rparr>))
   \<and> \<not> truthy (nullable (upd_weight (no_update\<lparr>upd_bloodSugar := Some 0\<rparr>)))
   \<and> \<not> truthy (nullable (upd_height (no_update\<lparr>upd_bloodSugar := Some 0\<rparr>)))
   \<and> healthHistory (snd (updatePatient example_store1 2000 1 (no_update\<lparr>upd_bloodSugar := Some 0\<rparr>)))
       = healthHistory example_store1
   \<and> m_healthHistories (snd (mem_updatePatient example_mem 2000 2001 1
                               (no_update\<lparr>upd_bloodSugar := Some 0\<rparr>) (Some 2)))
       = m_healthHistories example_mem
   \<and> getPatient example_store1 1 = Some example_patient1
   \<and> vitals_truthy (no_update\<lparr>upd_bloodSugar := Some 0, upd_bloodPressureSystolic := Some 130\<rparr>)
   \<and> (\<exists>r s'. updatePatient example_store1 2000 1
                  (no_update\<lparr>upd_bloodSugar := Some 0, upd_bloodPressureSystolic := Some 130\<rparr>)
                = (Inr r, s')
          \<and> (\<exists>h. healthHistory s' = healthHistory example_store1 @ [h]
                 \<and> h_bloodSugar h = Some 95
                 \<and> h_bloodPressureSystolic h = Some 130
                 \<and> h_bloodPressureDiastolic h = Some 76))
   \<and> m_patients example_mem 1 = Some example_patient1
   \<and> (2::int) \<noteq> 0
   \<and> truthy (upd_bloodPressureSystolic
               (no_update\<lparr>upd_bloodSugar := Some 0, upd_bloodPressureSystolic := Some 130\<rparr>))
   \<and> (\<exists>h. m_healthHistories (snd (mem_updatePatient example_mem 2000 2001 1
                  (no_update\<lparr>upd_bloodSugar := Some 0, upd_bloodPressureSystolic := Some 130\<rparr>)
                  (Some 2)))
               = m_healthHistories example_mem @ [h]
          \<and> h_bloodSugar h = Some 95
          \<and> h_bloodPressureSystolic h = Some 130
          \<and> h_bloodPressureDiastolic h = Some 76)"
proof -
  let ?u = "no_update\<lparr>upd_bloodSugar := Some 0\<rparr>"
  let ?v = "no_update\<lparr>upd_bloodSugar := Some 0, upd_bloodPressureSystolic := Some 130\<rparr>"
  let ?p = "example_patient1\<lparr>p_bloodSugar := 0, p_bloodPressureSystolic := 130\<rparr>"
  let ?s = "example_store1\<lparr>patients := [?p],
        healthHistory := [example_history1,
          \<lparr>h_id = 2, h_patientId = 1, h_recordedBy = 1, h_bloodSugar = Some 95,
           h_bloodPressureSystolic = Some 130, h_bloodPressureDiastolic = Some 76,
           h_changeType = ''manual_edit'', h_notes = Some ''Patient record updated'',
           h_timestamp = Some 2000\<rparr>],
        health_history_id_seq := 3\<rparr>"
  have run: "updatePatient example_store1 2000 1 ?v = (Inr (Some ?p), ?s)"
    by (simp add: example_defs updatePatient_def getPatient_def createHealthHistory_def
        Let_def user_exists_def patient_exists_def vitals_truthy_def set_patient_def js_or_def
        nullable_def no_values_def)
  have h1: "\<not> truthy (upd_bloodPressureSystolic ?u) \<and> \<not> truthy (upd_bloodPressureDiastolic ?u)
      \<and> \<not> truthy (upd_bloodSugar ?u) \<and> \<not> truthy (nullable (upd_weight ?u))
      \<and> \<not> truthy (nullable (upd_height ?u))"
    by (simp add: no_update_def nullable_def)
  have h2: "getPatient example_store1 1 = Some example_patient1 \<and> vitals_truthy ?v"
    by (simp add: example_defs getPatient_def vitals_truthy_def nullable_def)
  have h3: "m_patients example_mem 1 = Some example_patient1 \<and> (2::int) \<noteq> 0
      \<and> truthy (upd_bloodPressureSystolic ?v)"
    by (simp add: example_mem_def no_update_def)
  have v: "upd_bloodSugar ?v = Some 0" "upd_bloodPressureSystolic ?v = Some 130"
    "upd_bloodPressureDiastolic ?v = None"
    by (simp_all add: no_update_def)
  have p: "p_bloodSugar example_patient1 = 95" "p_bloodPressureDiastolic example_patient1 = 76"
    by (simp_all add: example_patient1_def)
  note t1 = updatePatient_records_by_truthiness[where u = ?u and s = example_store1
      and now = 2000 and now' = 2001 and i = 1 and m = example_mem and r = "Some 2"
      and ?s2.0 = example_store1 and j = 1 and e = example_patient1 and v = ?v and t = 2000
      and r' = "Some ?p" and s2' = ?s
      and t' = 2001 and ?m2.0 = example_mem and ?r2.0 = 2 and w = None]
  have c1: "healthHistory (snd (updatePatient example_store1 2000 1 ?u))
              = healthHistory example_store1
         \<and> m_healthHistories (snd (mem_updatePatient example_mem 2000 2001 1 ?u (Some 2)))
              = m_healthHistories example_mem"
    using t1 h1 by blast
  have "\<exists>h. healthHistory ?s = healthHistory example_store1 @ [h]
            \<and> h_bloodSugar h =
                (if truthy (upd_bloodSugar ?v) then upd_bloodSugar ?v
                 else Some (p_bloodSugar example_patient1))
            \<and> h_bloodPressureSystolic h =
                (if truthy (upd_bloodPressureSystolic ?v) then upd_bloodPressureSystolic ?v
                 else Some (p_bloodPressureSystolic example_patient1))
            \<and> h_bloodPressureDiastolic h =
                (if truthy (upd_bloodPressureDiastolic ?v) then upd_bloodPressureDiastolic ?v
                 else Some (p_bloodPressureDiastolic example_patient1))"
    using t1 h2 run by blast
  then have c2: "\<exists>h. healthHistory ?s = healthHistory example_store1 @ [h]
          \<and> h_bloodSugar h = Some 95
          \<and> h_bloodPressureSystolic h = Some 130
          \<and> h_bloodPressureDiastolic h = Some 76"
    unfolding v p by simp
  have "\<exists>h. m_healthHistories (snd (mem_updatePatient example_mem 2000 2001 1 ?v (Some 2)))
                 = m_healthHistories example_mem @ [h]
            \<and> h_bloodSugar h =
                (if truthy (upd_bloodSugar ?v) then upd_bloodSugar ?v
                 else Some (p_bloodSugar example_patient1))
            \<and> h_bloodPressureSystolic h =
                (if truthy (upd_bloodPressureSystolic ?v) then upd_bloodPressureSystolic ?v
                 else Some (p_bloodPressureSystolic example_patient1))
            \<and> h_bloodPressureDiastolic h =
                (if truthy (upd_bloodPressureDiastolic ?v) then upd_bloodPressureDiastolic ?v
                 else Some (p_bloodPressureDiastolic example_patient1))"
    using t1 h3 by blast
  then have c3: "\<exists>h. m_healthHistories (snd (mem_updatePatient example_mem 2000 2001 1 ?v (Some 2)))
               = m_healthHistories example_mem @ [h]
          \<and> h_bloodSugar h = Some 95
          \<and> h_bloodPressureSystolic h = Some 130
          \<and> h_bloodPressureDiastolic h = Some 76"
    unfolding v p by simp
  show ?thesis
    using h1 h2 h3 c1 run c2 c3 by blast
qed

section \<open>Properties of the statistics\<close>

lemma length_getAllPatients: "length (getAllPatients s) = length (patients s)"
  by (simp add: getAllPatients_def)

lemma count_getAllPatients:
  "length (filter P (getAllPatients s)) = length (filter P (patients s))"
  by (simp add: getAllPatients_def filter_sort)

lemma msPerDay_pos: "0 < msPerDay"
  by (simp add: msPerDay_def)

lemma setHours0_le: "setHours0 tz t \<le> t"
  using msPerDay_pos by (simp add: setHours0_def)

lemma setHours0_same_day: "t < setHours0 tz t + msPerDay"
  using pos_mod_bound[OF msPerDay_pos, of "t + tz"] by (simp add: setHours0_def)

lemma setHours0_midnight: "(setHours0 tz t + tz) mod msPerDay = 0"
proof -
  have "setHours0 tz t + tz = (t + tz) - (t + tz) mod msPerDay"
    by (simp add: setHours0_def)
  then show ?thesis by (simp add: minus_mod_eq_mult_div)
qed

text \<open>
  Claim C3, as the code has it. \<open>totalPatients\<close> is the number of patients the listing
  returns. \<open>newAdmissions\<close> is the number of listed patients created at or after the
  start of the current local day: the instant \<open>setHours0 tz now\<close>, which is not after
  \<open>now\<close>, less than a day before it, and a midnight of the zone. \<open>criticalCases\<close> is the
  number of listed patients with systolic pressure at least 140 or blood sugar at least
  200; the diastolic pressure is not looked at.
\<close>

theorem getPatientStats_counts:
  "totalPatients (getPatientStats s tz now) = length (getAllPatients s)
   \<and> newAdmissions (getPatientStats s tz now) =
       length (filter (\<lambda>p. \<exists>t. p_createdAt p = Some t \<and> setHours0 tz now \<le> t) (getAllPatients s))
   \<and> setHours0 tz now \<le> now \<and> now < setHours0 tz now + msPerDay
   \<and> (setHours0 tz now + tz) mod msPerDay = 0
   \<and> criticalCases (getPatientStats s tz now) =
       length (filter (\<lambda>p. p_bloodPressureSystolic p \<ge> 140 \<or> p_bloodSugar p \<ge> 200)
                 (getAllPatients s))"
proof -
  have g: "gte_createdAt (setHours0 tz now) =
             (\<lambda>p. \<exists>t. p_createdAt p = Some t \<and> setHours0 tz now \<le> t)"
    by (rule ext) (simp add: gte_createdAt_def split: option.split)
  have c: "stats_critical = (\<lambda>p. p_bloodPressureSystolic p \<ge> 140 \<or> p_bloodSugar p \<ge> 200)"
    by (rule ext) (simp add: stats_critical_def)
  show ?thesis
    by (simp add: getPatientStats_def Let_def length_getAllPatients count_getAllPatients
        setHours0_le setHours0_same_day setHours0_midnight g c)
qed

text \<open>
  Claim C3 as stated fails: \<open>criticalCases\<close> is not the number of patients the ladder
  classifies as Critical. A patient at 120/95 with blood sugar 100 is Critical by the
  ladder (diastolic above 90) and is not counted; a patient at 140/70 is counted and is
  not Critical by the ladder (140 is not above 140).
\<close>

theorem criticalCases_is_not_the_ladder:
  "criticalCases (getPatientStats example_store3 0 2000) = 0
   \<and> length (filter ladder_critical (getAllPatients example_store3)) = 1
   \<and> criticalCases (getPatientStats example_store4 0 2000) = 1
   \<and> length (filter ladder_critical (getAllPatients example_store4)) = 0"
  by (simp add: getPatientStats_def getAllPatients_def example_defs stats_critical_def
      ladder_critical_def getVitalStatus_def Let_def)

section \<open>Properties of the generated patient id\<close>

lemma digit_char_is_digit: "d < 10 \<Longrightarrow> is_digit (digit_char d)"
proof -
  assume "d < 10"
  then have "d \<in> {0, 1, 2, 3, 4, 5, 6, 7, 8, 9}" by auto
  then show ?thesis
    by (auto simp: digit_char_def is_digit_def)
qed

lemma digit_char_inj: "a < 10 \<Longrightarrow> b < 10 \<Longrightarrow> digit_char a = digit_char b \<Longrightarrow> a = b"
proof -
  assume "a < 10" "b < 10" and e: "digit_char a = digit_char b"
  then have "a \<in> {0, 1, 2, 3, 4, 5, 6, 7, 8, 9}" "b \<in> {0, 1, 2, 3, 4, 5, 6, 7, 8, 9}" by auto
  then show ?thesis
    using e by (auto simp: digit_char_def)
qed

lemma show_nat_digits: "list_all is_digit (show_nat n)"
proof (induction n rule: show_nat.induct)
  case (1 n)
  show ?case
  proof (cases "n < 10")
    case True
    then show ?thesis by (subst show_nat.simps) (simp add: digit_char_is_digit)
  next
    case False
    then show ?thesis
      using 1 by (subst show_nat.simps) (simp add: digit_char_is_digit)
  qed
qed

lemma show_nat_ne: "show_nat n \<noteq> []"
  by (subst show_nat.simps) simp

lemma show_nat_length: "10 \<le> n \<Longrightarrow> 2 \<le> length (show_nat n)"
proof -
  assume a: "10 \<le> n"
  have "length (show_nat (n div 10)) \<ge> 1"
    using show_nat_ne[of "n div 10"] by (cases "show_nat (n div 10)") auto
  then show ?thesis
    using a by (subst show_nat.simps) simp
qed

lemma show_nat_inj: "show_nat a = show_nat b \<Longrightarrow> a = b"
proof (induction a arbitrary: b rule: show_nat.induct)
  case (1 a)
  show ?case
  proof (cases "a < 10")
    case a: True
    show ?thesis
    proof (cases "b < 10")
      case True
      with a 1(2) show ?thesis
        by (simp add: show_nat.simps[of a] show_nat.simps[of b] digit_char_inj)
    next
      case False
      then have "2 \<le> length (show_nat b)" by (simp add: show_nat_length)
      moreover have "length (show_nat a) = 1"
        using a by (simp add: show_nat.simps[of a])
      ultimately show ?thesis using 1(2) by simp
    qed
  next
    case a: False
    show ?thesis
    proof (cases "b < 10")
      case True
      from a have "2 \<le> length (show_nat a)" by (simp add: show_nat_length)
      moreover have "length (show_nat b) = 1"
        using True by (simp add: show_nat.simps[of b])
      ultimately show ?thesis using 1(2) by simp
    next
      case False
      from a False 1(2)
      have e: "show_nat (a div 10) @ [digit_char (a mod 10)]
                = show_nat (b div 10) @ [digit_char (b mod 10)]"
        by (simp add: show_nat.simps[of a] show_nat.simps[of b])
      then have "show_nat (a div 10) = show_nat (b div 10)"
        and d: "digit_char (a mod 10) = digit_char (b mod 10)"
        by simp_all
      then have q: "a div 10 = b div 10" using 1(1)[OF a] by simp
      have r: "a mod 10 = b mod 10"
        using d by (intro digit_char_inj) simp_all
      show ?thesis
        using q r by (metis div_mult_mod_eq)
    qed
  qed
qed

lemma is_digit_not_P: "is_digit c \<Longrightarrow> c \<noteq> CHR ''P''"
  by (auto simp: is_digit_def)

lemma is_digit_not_dash: "is_digit c \<Longrightarrow> c \<noteq> CHR ''-''"
  by (auto simp: is_digit_def)

lemma generated_no_match_at:
  assumes "list_all is_digit ds"
  shows "\<not> matches_PT_format (take 11 (drop i (''PT-'' @ ds)))"
proof (cases "i = 0")
  case True
  show ?thesis
  proof
    assume m: "matches_PT_format (take 11 (drop i (''PT-'' @ ds)))"
    then have l: "length ds \<ge> 8" and "take 1 (drop 7 (take 11 (''PT-'' @ ds))) = ''-''"
      using True by (auto simp: matches_PT_format_def)
    then have "take 1 (drop 4 ds) = ''-''" by (simp add: drop_take)
    moreover have "take 1 (drop 4 ds) = [ds ! 4]"
      using l by (cases "drop 4 ds") (auto simp: hd_drop_conv_nth take_Suc dest: arg_cong[where f=hd])
    ultimately have "ds ! 4 = CHR ''-''" by simp
    moreover have "is_digit (ds ! 4)"
      using assms l by (simp add: list_all_length)
    ultimately show False using is_digit_not_dash by blast
  qed
next
  case False
  show ?thesis
  proof
    assume m: "matches_PT_format (take 11 (drop i (''PT-'' @ ds)))"
    then have l: "length (take 11 (drop i (''PT-'' @ ds))) = 11"
      and p: "take 3 (take 11 (drop i (''PT-'' @ ds))) = ''PT-''"
      by (auto simp: matches_PT_format_def)
    from l have li: "i + 11 \<le> 3 + length ds" by simp
    from p have "hd (drop i (''PT-'' @ ds)) = CHR ''P''"
      by (cases "drop i (''PT-'' @ ds)") auto
    then have h: "(''PT-'' @ ds) ! i = CHR ''P''"
      using li by (simp add: hd_drop_conv_nth)
    consider "i = 1" | "i = 2" | "i \<ge> 3" using False by linarith
    then show False
    proof cases
      case 1
      then show ?thesis using h by simp
    next
      case 2
      then show ?thesis using h by simp
    next
      case 3
      then have "(''PT-'' @ ds) ! i = ds ! (i - 3)"
        by (simp add: nth_append numeral_3_eq_3)
      moreover have "is_digit (ds ! (i - 3))"
        using assms li 3 by (simp add: list_all_length)
      ultimately show ?thesis using h is_digit_not_P by metis
    qed
  qed
qed

lemma generated_never_matches: "\<not> contains_PT_format (generated_patientId n)"
  unfolding contains_PT_format_def generated_patientId_def list_ex_iff
  using generated_no_match_at[OF show_nat_digits] by blast

lemma generated_never_matches_whole: "\<not> matches_PT_format (generated_patientId n)"
proof
  assume m: "matches_PT_format (generated_patientId n)"
  then have "length (generated_patientId n) = 11" by (simp add: matches_PT_format_def)
  then have "take 11 (drop 0 (''PT-'' @ show_nat n)) = generated_patientId n"
    by (simp add: generated_patientId_def)
  then show False
    using generated_no_match_at[OF show_nat_digits, of 0 n] m by simp
qed

lemma generated_inj: "generated_patientId a = generated_patientId b \<longleftrightarrow> a = b"
  by (auto simp: generated_patientId_def dest: show_nat_inj)

lemma example_generated: "generated_patientId 1700000000000 = ''PT-1700000000000''"
  by (simp add: generated_patientId_def show_nat.simps digit_char_def)

lemma example_generated_next: "generated_patientId 1700000000001 = ''PT-1700000000001''"
  by (simp add: generated_patientId_def show_nat.simps digit_char_def)

lemma example_post:
  "post_api_patients example_store0 1700000000000 1000 1001 2 example_body
     = (Inr example_patient1, example_store1)"
proof -
  have "post_api_patients example_store0 1700000000000 1000 1001 2 example_body
          = createPatient example_store0 1000 1001 example_new_patient"
    by (simp add: post_api_patients_def example_generated example_body_def
        example_new_patient_def)
  then show ?thesis by (simp add: example_create)
qed

lemma post_success:
  assumes "post_api_patients s dateNow now now' userId patientData = (Inr p, s')"
  shows "p_patientId p = generated_patientId dateNow"
    and "\<not> list_ex (\<lambda>q. p_patientId q = generated_patientId dateNow) (patients s)"
    and "patients s' = patients s @ [p]"
    and "p_id p = patients_id_seq s"
    and "patients_id_seq s' = patients_id_seq s + 1"
proof -
  let ?np = "\<lparr>ip_name = ip_name patientData,
        ip_age = ip_age patientData,
        ip_phone = ip_phone patientData,
        ip_bloodSugar = ip_bloodSugar patientData,
        ip_bloodPressureSystolic = ip_bloodPressureSystolic patientData,
        ip_bloodPressureDiastolic = ip_bloodPressureDiastolic patientData,
        ip_weight = ip_weight patientData,
        ip_height = ip_height patientData,
        ip_medicalHistory = ip_medicalHistory patientData,
        ip_patientId = generated_patientId dateNow,
        ip_createdBy = userId\<rparr>"
  have c: "createPatient s now now' ?np = (Inr p, s')"
    using assms by (simp add: post_api_patients_def)
  have n: "\<not> list_ex (\<lambda>q. p_patientId q = ip_patientId ?np) (patients s)"
  proof
    assume "list_ex (\<lambda>q. p_patientId q = ip_patientId ?np) (patients s)"
    from createPatient_duplicate[OF this, of now now'] c show False by simp
  qed
  have u: "user_exists s (ip_createdBy ?np)"
  proof (rule ccontr)
    assume "\<not> user_exists s (ip_createdBy ?np)"
    from createPatient_no_creator[OF n this, of now now'] c show False by simp
  qed
  from createPatient_ok[OF n u, of now now'] obtain p0 h where
    c0: "createPatient s now now' ?np =
           (Inr p0, s\<lparr>patients := patients s @ [p0],
                     patients_id_seq := patients_id_seq s + 1,
                     healthHistory := healthHistory s @ [h],
                     health_history_id_seq := health_history_id_seq s + 1\<rparr>)"
    and p0: "p_id p0 = patients_id_seq s" "p_patientId p0 = ip_patientId ?np"
    by blast
  from trans[OF c[symmetric] c0] have pe: "p = p0"
    and se: "s' = s\<lparr>patients := patients s @ [p0],
                     patients_id_seq := patients_id_seq s + 1,
                     healthHistory := healthHistory s @ [h],
                     health_history_id_seq := health_history_id_seq s + 1\<rparr>"
    by simp_all
  show "p_patientId p = generated_patientId dateNow"
    using pe p0(2) by simp
  show "patients s' = patients s @ [p]"
    by (simp add: se pe)
  show "p_id p = patients_id_seq s"
    using pe p0(1) by simp
  show "patients_id_seq s' = patients_id_seq s + 1"
    by (simp add: se)
  show "\<not> list_ex (\<lambda>q. p_patientId q = generated_patientId dateNow) (patients s)"
    using n by simp
qed

lemma post_duplicate:
  assumes "list_ex (\<lambda>q. p_patientId q = generated_patientId dateNow) (patients s)"
  shows "post_api_patients s dateNow now now' userId patientData = (Inl UniqueViolation, s)"
  using assms by (simp add: post_api_patients_def createPatient_duplicate)

lemma post_keeps_distinct:
  assumes "distinct (map p_patientId (patients s))"
  shows "distinct (map p_patientId
           (patients (snd (post_api_patients s dateNow now now' userId patientData))))"
proof -
  let ?np = "\<lparr>ip_name = ip_name patientData,
        ip_age = ip_age patientData,
        ip_phone = ip_phone patientData,
        ip_bloodSugar = ip_bloodSugar patientData,
        ip_bloodPressureSystolic = ip_bloodPressureSystolic patientData,
        ip_bloodPressureDiastolic = ip_bloodPressureDiastolic patientData,
        ip_weight = ip_weight patientData,
        ip_height = ip_height patientData,
        ip_medicalHistory = ip_medicalHistory patientData,
        ip_patientId = generated_patientId dateNow,
        ip_createdBy = userId\<rparr>"
  have e: "post_api_patients s dateNow now now' userId patientData
             = createPatient s now now' ?np"
    by (simp add: post_api_patients_def)
  show ?thesis
  proof (cases "list_ex (\<lambda>q. p_patientId q = ip_patientId ?np) (patients s)")
    case True
    then show ?thesis
      using assms unfolding e by (simp only: createPatient_duplicate snd_conv)
  next
    case False
    show ?thesis
    proof (cases "user_exists s (ip_createdBy ?np)")
      case no: False
      show ?thesis
        using assms unfolding e
        by (simp only: createPatient_no_creator[OF False no] snd_conv)
    next
      case True
      from createPatient_ok[OF False True, of now now'] obtain p h where
        c: "createPatient s now now' ?np =
           (Inr p, s\<lparr>patients := patients s @ [p],
                     patients_id_seq := patients_id_seq s + 1,
                     healthHistory := healthHistory s @ [h],
                     health_history_id_seq := health_history_id_seq s + 1\<rparr>)"
        and p: "p_patientId p = ip_patientId ?np"
        by blast
      have "distinct (map p_patientId (patients s @ [p]))"
        using assms False p by (auto simp: list_ex_iff)
      then show ?thesis
        unfolding e c by simp
    qed
  qed
qed

text \<open>
  Claim C7, as the code has it. The id the route assigns is \<open>PT-\<close> followed by the
  decimal digits of \<open>Date.now()\<close>; it never has the format \<open>PT-\d{4}-\d{3}\<close>, whole or
  as a part. Different instants give different ids. The unique index keeps the patient
  ids of a store distinct: a creation whose generated id is already stored is refused
  and changes nothing, so two creations in succession that both succeed happened at
  different milliseconds, got different patient ids, and the later one the greater
  row id.
\<close>

theorem generated_patientId_unique_by_timestamp:
  "(post_api_patients s dateNow now now' userId patientData = (Inr p, s')
      \<longrightarrow> p_patientId p = ''PT-'' @ show_nat dateNow)
   \<and> \<not> matches_PT_format (generated_patientId dateNow)
   \<and> \<not> contains_PT_format (generated_patientId dateNow)
   \<and> (generated_patientId a = generated_patientId b \<longleftrightarrow> a = b)
   \<and> (distinct (map p_patientId (patients s))
      \<longrightarrow> distinct (map p_patientId
            (patients (snd (post_api_patients s dateNow now now' userId patientData)))))
   \<and> (list_ex (\<lambda>q. p_patientId q = generated_patientId dateNow) (patients s)
      \<longrightarrow> post_api_patients s dateNow now now' userId patientData = (Inl UniqueViolation, s))
   \<and> (post_api_patients s dateNow now now' userId patientData = (Inr p, s')
        \<and> post_api_patients s' dateNow2 now2 now2' userId2 patientData2 = (Inr p2, s2)
      \<longrightarrow> p_patientId p \<noteq> p_patientId p2 \<and> dateNow \<noteq> dateNow2 \<and> p_id p < p_id p2)"
proof (intro conjI impI)
  assume "post_api_patients s dateNow now now' userId patientData = (Inr p, s')"
  then show "p_patientId p = ''PT-'' @ show_nat dateNow"
    using post_success(1) by (simp add: generated_patientId_def)
next
  show "\<not> matches_PT_format (generated_patientId dateNow)"
    by (rule generated_never_matches_whole)
  show "\<not> contains_PT_format (generated_patientId dateNow)"
    by (rule generated_never_matches)
  show "generated_patientId a = generated_patientId b \<longleftrightarrow> a = b"
    by (rule generated_inj)
next
  assume "distinct (map p_patientId (patients s))"
  then show "distinct (map p_patientId
            (patients (snd (post_api_patients s dateNow now now' userId patientData))))"
    by (rule post_keeps_distinct)
next
  assume "list_ex (\<lambda>q. p_patientId q = generated_patientId dateNow) (patients s)"
  then show "post_api_patients s dateNow now now' userId patientData = (Inl UniqueViolation, s)"
    by (rule post_duplicate)
next
  assume a: "post_api_patients s dateNow now now' userId patientData = (Inr p, s')
        \<and> post_api_patients s' dateNow2 now2 now2' userId2 patientData2 = (Inr p2, s2)"
  note f = post_success[OF a[THEN conjunct1]]
  note g = post_success[OF a[THEN conjunct2]]
  have "list_ex (\<lambda>q. p_patientId q = generated_patientId dateNow) (patients s')"
    by (simp add: f(1) f(3))
  with g(2) have ne: "generated_patientId dateNow2 \<noteq> generated_patientId dateNow"
    by metis
  show "p_patientId p \<noteq> p_patientId p2"
    using ne by (simp add: f(1) g(1))
  show "dateNow \<noteq> dateNow2"
    using ne by metis
  show "p_id p < p_id p2"
    by (simp add: f(4) f(5) g(4))
qed


lemma post_ok:
  assumes "\<not> list_ex (\<lambda>q. p_patientId q = generated_patientId dateNow) (patients s)"
    and "user_exists s userId"
  shows "\<exists>p s'. post_api_patients s dateNow now now' userId patientData = (Inr p, s')"
proof -
  let ?np = "\<lparr>ip_name = ip_name patientData,
        ip_age = ip_age patientData,
        ip_phone = ip_phone patientData,
        ip_bloodSugar = ip_bloodSugar patientData,
        ip_bloodPressureSystolic = ip_bloodPressureSystolic patientData,
        ip_bloodPressureDiastolic = ip_bloodPressureDiastolic patientData,
        ip_weight = ip_weight patientData,
        ip_height = ip_height patientData,
        ip_medicalHistory = ip_medicalHistory patientData,
        ip_patientId = generated_patientId dateNow,
        ip_createdBy = userId\<rparr>"
  have n: "\<not> list_ex (\<lambda>q. p_patientId q = ip_patientId ?np) (patients s)"
    using assms(1) by simp
  have u: "user_exists s (ip_createdBy ?np)"
    using assms(2) by simp
  from createPatient_ok[OF n u, of now now'] show ?thesis
    unfolding post_api_patients_def by blast
qed

text \<open>
  On the example stores: the scenario's creation at instant 1700000000000, a second
  creation at the same instant (refused) and one a millisecond later (accepted).
\<close>

theorem generated_patientId_unique_by_timestamp_witness:
  "post_api_patients example_store0 1700000000000 1000 1001 2 example_body
      = (Inr example_patient1, example_store1)
   \<and> p_patientId example_patient1 = ''PT-'' @ show_nat 1700000000000
   \<and> distinct (map p_patientId (patients example_store1))
   \<and> distinct (map p_patientId
        (patients (snd (post_api_patients example_store1 1700000000001 3000 3001 1 example_body))))
   \<and> list_ex (\<lambda>q. p_patientId q = generated_patientId 1700000000000) (patients example_store1)
   \<and> post_api_patients example_store1 1700000000000 3000 3001 1 example_body
       = (Inl UniqueViolation, example_store1)
   \<and> (\<exists>p2 s2. post_api_patients example_store1 1700000000001 3000 3001 1 example_body
                  = (Inr p2, s2)
          \<and> p_patientId example_patient1 \<noteq> p_patientId p2
          \<and> p_id example_patient1 < p_id p2)"
proof -
  have d: "distinct (map p_patientId (patients example_store1))"
    by (simp add: example_defs)
  have l: "list_ex (\<lambda>q. p_patientId q = generated_patientId 1700000000000)
             (patients example_store1)"
    by (simp add: example_generated example_defs)
  have "\<not> list_ex (\<lambda>q. p_patientId q = generated_patientId 1700000000001)
             (patients example_store1)"
    by (simp add: example_generated_next example_defs)
  moreover have "user_exists example_store1 1"
    by (simp add: example_defs user_exists_def)
  ultimately obtain p2 s2 where
    q: "post_api_patients example_store1 1700000000001 3000 3001 1 example_body = (Inr p2, s2)"
    using post_ok by blast
  note t1 = generated_patientId_unique_by_timestamp[of example_store0 1700000000000 1000 1001 2 example_body
      example_patient1 example_store1 0 0 1700000000001 3000 3001 1 example_body p2 s2]
  note t2 = generated_patientId_unique_by_timestamp[of example_store1 1700000000001 3000 3001 1 example_body
      p2 s2 0 0 0 0 0 0 example_body p2 s2]
  note t3 = generated_patientId_unique_by_timestamp[of example_store1 1700000000000 3000 3001 1 example_body
      p2 s2 0 0 0 0 0 0 example_body p2 s2]
  have a: "p_patientId example_patient1 = ''PT-'' @ show_nat 1700000000000"
    using t1 example_post by blast
  have b: "distinct (map p_patientId
        (patients (snd (post_api_patients example_store1 1700000000001 3000 3001 1 example_body))))"
    using t2 d by blast
  have c: "post_api_patients example_store1 1700000000000 3000 3001 1 example_body
       = (Inl UniqueViolation, example_store1)"
    using t3 l by blast
  have e: "p_patientId example_patient1 \<noteq> p_patientId p2 \<and> p_id example_patient1 < p_id p2"
    using t1 example_post q by blast
  show ?thesis
    using example_post a b c d l q e by blast
qed

text \<open>
  Claim C7 as stated fails: the patient created at instant 1700000000000 gets the id
  \<open>PT-1700000000000\<close>, which does not match \<open>PT-\d{4}-\d{3}\<close>.
\<close>

theorem generated_patientId_not_in_PT_format:
  "fst (post_api_patients example_store0 1700000000000 1000 1001 2 example_body)
      = Inr example_patient1
   \<and> p_patientId example_patient1 = ''PT-1700000000000''
   \<and> \<not> matches_PT_format ''PT-1700000000000''
   \<and> \<not> contains_PT_format ''PT-1700000000000''"
proof -
  have "\<not> matches_PT_format ''PT-1700000000000''"
    by (simp add: matches_PT_format_def)
  moreover have "\<not> contains_PT_format ''PT-1700000000000''"
    by code_simp
  ultimately show ?thesis
    by (simp add: example_post example_patient1_def)
qed

section \<open>Properties of the CSV export\<close>

lemma csv_read_unquoted:
  "comma \<notin> set s \<Longrightarrow> LF \<notin> set s \<Longrightarrow>
   csv_read Unquoted f r rs (s @ rest) = csv_read Unquoted (f @ s) r rs rest"
  by (induction s arbitrary: f) auto

lemma replace_quotes_Cons:
  "replace_quotes (c # s) = (if c = dquote then [dquote, dquote] else [c]) @ replace_quotes s"
  by (simp add: replace_quotes_def)

lemma replace_quotes_Nil: "replace_quotes [] = []"
  by (simp add: replace_quotes_def)

lemma csv_read_quoted:
  "csv_read Quoted f r rs (replace_quotes s @ rest) = csv_read Quoted (f @ s) r rs rest"
  by (induction s arbitrary: f) (auto simp: replace_quotes_Cons replace_quotes_Nil)

lemma special_chars_distinct:
  "dquote \<noteq> comma" "dquote \<noteq> LF" "comma \<noteq> LF" "comma \<noteq> dquote" "LF \<noteq> dquote" "LF \<noteq> comma"
  by (simp_all add: dquote_def comma_def LF_def)

text \<open>What the reader does with a written field, by what follows it.\<close>

lemma field_quoted_comma:
  "csv_read Quoted [] r rs (replace_quotes s @ dquote # comma # cs)
     = csv_read FieldStart [] (r @ [s]) rs cs"
  by (simp add: csv_read_quoted special_chars_distinct)

lemma field_quoted_LF:
  "csv_read Quoted [] r rs (replace_quotes s @ dquote # LF # cs)
     = csv_read FieldStart [] [] (rs @ [r @ [s]]) cs"
  by (simp add: csv_read_quoted special_chars_distinct)

lemma field_quoted_end:
  "csv_read Quoted [] r rs (replace_quotes s @ [dquote]) = rs @ [r @ [s]]"
  by (simp add: csv_read_quoted)

lemma field_comma:
  "csv_read FieldStart [] r rs (escapeCsvField (Some s) @ comma # cs)
     = csv_read FieldStart [] (r @ [s]) rs cs"
proof (cases "comma \<in> set s \<or> dquote \<in> set s \<or> LF \<in> set s \<or> CR \<in> set s")
  case True
  then show ?thesis
    by (simp add: escapeCsvField_def field_quoted_comma)
next
  case False
  then have e: "escapeCsvField (Some s) = s" by (simp add: escapeCsvField_def)
  show ?thesis
  proof (cases s)
    case Nil
    show ?thesis unfolding e unfolding Nil by (simp add: special_chars_distinct)
  next
    case (Cons c s')
    with False have c: "c \<noteq> dquote" "c \<noteq> comma" "c \<noteq> LF"
      and s': "comma \<notin> set s'" "LF \<notin> set s'"
      by auto
    show ?thesis
      using c s' unfolding e unfolding Cons by (simp add: csv_read_unquoted)
  qed
qed

lemma field_LF:
  "csv_read FieldStart [] r rs (escapeCsvField (Some s) @ LF # cs)
     = csv_read FieldStart [] [] (rs @ [r @ [s]]) cs"
proof (cases "comma \<in> set s \<or> dquote \<in> set s \<or> LF \<in> set s \<or> CR \<in> set s")
  case True
  then show ?thesis
    by (simp add: escapeCsvField_def field_quoted_LF)
next
  case False
  then have e: "escapeCsvField (Some s) = s" by (simp add: escapeCsvField_def)
  show ?thesis
  proof (cases s)
    case Nil
    show ?thesis unfolding e unfolding Nil by (simp add: special_chars_distinct)
  next
    case (Cons c s')
    with False have c: "c \<noteq> dquote" "c \<noteq> comma" "c \<noteq> LF"
      and s': "comma \<notin> set s'" "LF \<notin> set s'"
      by auto
    show ?thesis
      using c s' unfolding e unfolding Cons
      by (simp add: csv_read_unquoted special_chars_distinct)
  qed
qed

lemma field_end:
  "r \<noteq> [] \<Longrightarrow> csv_read FieldStart [] r rs (escapeCsvField (Some s)) = rs @ [r @ [s]]"
proof (cases "comma \<in> set s \<or> dquote \<in> set s \<or> LF \<in> set s \<or> CR \<in> set s")
  case True
  then show ?thesis
    by (simp add: escapeCsvField_def field_quoted_end)
next
  case False
  assume r: "r \<noteq> []"
  from False have e: "escapeCsvField (Some s) = s" by (simp add: escapeCsvField_def)
  show ?thesis
  proof (cases s)
    case Nil
    show ?thesis using r unfolding e unfolding Nil by simp
  next
    case (Cons c s')
    with False have c: "c \<noteq> dquote" "c \<noteq> comma" "c \<noteq> LF"
      and s': "comma \<notin> set s'" "LF \<notin> set s'"
      by auto
    show ?thesis
      using c s' csv_read_unquoted[of s' "[c]" r rs "[]"] unfolding e unfolding Cons by simp
  qed
qed

lemma csvLine_Cons2:
  "csvLine (v # w # ws) = escapeCsvField (Some v) @ comma # csvLine (w # ws)"
  by (simp add: csvLine_def)

lemma csvLine_single: "csvLine [v] = escapeCsvField (Some v)"
  by (simp add: csvLine_def)

lemma line_LF:
  "csv_read FieldStart [] r rs (csvLine (v # vs) @ LF # cs)
     = csv_read FieldStart [] [] (rs @ [r @ v # vs]) cs"
proof (induction vs arbitrary: v r)
  case Nil
  show ?case by (simp add: csvLine_single field_LF)
next
  case (Cons w ws)
  show ?case
    using Cons[of "r @ [v]" w] by (simp add: csvLine_Cons2 field_comma)
qed

lemma line_end:
  "r \<noteq> [] \<or> vs \<noteq> [] \<Longrightarrow>
   csv_read FieldStart [] r rs (csvLine (v # vs)) = rs @ [r @ v # vs]"
proof (induction vs arbitrary: v r)
  case Nil
  then show ?case by (simp add: csvLine_single field_end)
next
  case (Cons w ws)
  show ?case
    using Cons(1)[of "r @ [v]" w] by (simp add: csvLine_Cons2 field_comma)
qed

lemma lines_read:
  "list_all (\<lambda>row. 2 \<le> length row) rows \<Longrightarrow>
   csv_read FieldStart [] [] rs (join [LF] (map csvLine rows)) = rs @ rows"
proof (induction rows arbitrary: rs rule: induct_list012)
  case 1
  show ?case by simp
next
  case (2 x)
  then obtain v vs where x: "x = v # vs" and "vs \<noteq> []"
    by (cases x) (auto simp: Suc_le_eq)
  then show ?case by (simp add: line_end)
next
  case (3 x y zs)
  then obtain v vs where x: "x = v # vs"
    by (cases x) auto
  have "csv_read FieldStart [] [] rs (join [LF] (map csvLine (x # y # zs)))
          = csv_read FieldStart [] [] (rs @ [x]) (join [LF] (map csvLine (y # zs)))"
    by (simp add: x line_LF)
  also have "\<dots> = (rs @ [x]) @ (y # zs)"
    using 3 by simp
  finally show ?case by simp
qed

lemma csvHeader_line: "csvHeader = csvLine header_values @ [LF]"
  by (simp add: csvHeader_def csvLine_def header_values_def escapeCsvField_def comma_def
      dquote_def LF_def CR_def)

lemma export_roundtrip:
  "csv_parse (csvHeader @ csvData num day ps) = header_values # map (export_values num day) ps"
proof -
  obtain h hs where hv: "header_values = h # hs"
    by (simp add: header_values_def)
  let ?body = "join [LF] (map csvLine (map (export_values num day) ps))"
  have rows: "list_all (\<lambda>row. 2 \<le> length row) (map (export_values num day) ps)"
    by (simp add: list_all_iff export_values_def)
  have "csv_parse (csvHeader @ csvData num day ps)
          = csv_read FieldStart [] [] [] (csvLine (h # hs) @ LF # ?body)"
    by (simp add: csv_parse_def csvHeader_line csvData_def comp_def hv)
  also have "\<dots> = csv_read FieldStart [] [] ([] @ [[] @ h # hs]) ?body"
    by (rule line_LF)
  also have "\<dots> = ([] @ [[] @ h # hs]) @ map (export_values num day) ps"
    using rows by (rule lines_read)
  finally show ?thesis by (simp add: hv)
qed


lemma replace_quotes_append:
  "replace_quotes (a @ b) = replace_quotes a @ replace_quotes b"
  by (simp add: replace_quotes_def)

lemma replace_quotes_id: "dquote \<notin> set v \<Longrightarrow> replace_quotes v = v"
  by (induction v) (auto simp: replace_quotes_Cons replace_quotes_Nil)

text \<open>
  Claim C8. The export starts with the three bytes of the UTF-8 byte-order mark.
  Reading the rest back gives the header and then, for every listed patient in order,
  the nine values patientId, name, age, phone, bloodSugar, systolicBP, diastolicBP,
  medicalHistory, createdDate, each exactly as it was written. A value with a comma, a
  double quote or a line feed is emitted between double quotes with every embedded
  quote doubled (and a value without quotes is unchanged by the doubling); any two
  values written as a line read back as themselves.
\<close>

theorem csv_export_roundtrip:
  "take 3 (export_csv num day s) = [CHR 0xEF, CHR 0xBB, CHR 0xBF]
   \<and> csv_parse (drop 3 (export_csv num day s)) =
       [''Patient ID'', ''Name'', ''Age'', ''Phone'', ''Blood Sugar'', ''Systolic BP'',
        ''Diastolic BP'', ''Medical History'', ''Created Date'']
       # map (\<lambda>p. [p_patientId p, p_name p, show_int (p_age p), p_phone p,
                   num (p_bloodSugar p), show_int (p_bloodPressureSystolic p),
                   show_int (p_bloodPressureDiastolic p), p_medicalHistory p,
                   day (p_createdAt p)])
           (getAllPatients s)
   \<and> (comma \<in> set v \<or> dquote \<in> set v \<or> LF \<in> set v
        \<longrightarrow> escapeCsvField (Some v) = [dquote] @ replace_quotes v @ [dquote])
   \<and> replace_quotes (a @ [dquote] @ b) = replace_quotes a @ [dquote, dquote] @ replace_quotes b
   \<and> (dquote \<notin> set v \<longrightarrow> replace_quotes v = v)
   \<and> csv_parse (csvLine [v, w]) = [[v, w]]"
proof (intro conjI impI)
  show "take 3 (export_csv num day s) = [CHR 0xEF, CHR 0xBB, CHR 0xBF]"
    by (simp add: export_csv_def BOM_def)
  have "drop 3 (export_csv num day s) = csvHeader @ csvData num day (getAllPatients s)"
    by (simp add: export_csv_def BOM_def)
  then show "csv_parse (drop 3 (export_csv num day s)) =
       [''Patient ID'', ''Name'', ''Age'', ''Phone'', ''Blood Sugar'', ''Systolic BP'',
        ''Diastolic BP'', ''Medical History'', ''Created Date'']
       # map (\<lambda>p. [p_patientId p, p_name p, show_int (p_age p), p_phone p,
                   num (p_bloodSugar p), show_int (p_bloodPressureSystolic p),
                   show_int (p_bloodPressureDiastolic p), p_medicalHistory p,
                   day (p_createdAt p)])
           (getAllPatients s)"
    by (simp only: export_roundtrip) (simp add: header_values_def export_values_def)
  show "replace_quotes (a @ [dquote] @ b) = replace_quotes a @ [dquote, dquote] @ replace_quotes b"
    by (simp add: replace_quotes_append replace_quotes_Cons)
  show "csv_parse (csvLine [v, w]) = [[v, w]]"
    using line_end[of "[]" "[w]" "[]" v] by (simp add: csv_parse_def)
next
  assume "comma \<in> set v \<or> dquote \<in> set v \<or> LF \<in> set v"
  then show "escapeCsvField (Some v) = [dquote] @ replace_quotes v @ [dquote]"
    by (auto simp: escapeCsvField_def)
next
  assume "dquote \<notin> set v"
  then show "replace_quotes v = v" by (rule replace_quotes_id)
qed

text \<open>
  On a patient named \<open>O'Brien, John\<close> whose medical history holds quotes and a line
  feed.
\<close>

theorem csv_export_roundtrip_witness:
  "comma \<in> set (p_name example_patient_csv)
   \<and> escapeCsvField (Some (p_name example_patient_csv))
       = [dquote] @ ''O'' @ [CHR 0x27] @ ''Brien, John'' @ [dquote]
   \<and> dquote \<notin> set (p_name example_patient_csv)
   \<and> dquote \<in> set (p_medicalHistory example_patient_csv)
   \<and> escapeCsvField (Some (p_medicalHistory example_patient_csv))
       = [dquote] @ ''said '' @ [dquote, dquote] @ ''ok'' @ [dquote, dquote, LF]
           @ ''second line'' @ [dquote]
   \<and> csv_parse (drop 3 (export_csv (\<lambda>x. ''95'') (\<lambda>t. ''1970-01-01'') example_store_csv))
       = [[''Patient ID'', ''Name'', ''Age'', ''Phone'', ''Blood Sugar'', ''Systolic BP'',
           ''Diastolic BP'', ''Medical History'', ''Created Date''],
          [''PT-1700000000000'', ''O'' @ [CHR 0x27] @ ''Brien, John'', ''40'', ''555'', ''95'',
           ''118'', ''76'', ''said '' @ [dquote] @ ''ok'' @ [dquote, LF] @ ''second line'',
           ''1970-01-01'']]"
proof -
  let ?num = "\<lambda>x::real. ''95''" and ?day = "\<lambda>t::timestamp option. ''1970-01-01''"
  note t1 = csv_export_roundtrip[of ?num ?day example_store_csv "p_name example_patient_csv" "[]" "[]" "[]"]
  note t2 = csv_export_roundtrip[of ?num ?day example_store_csv "p_medicalHistory example_patient_csv"
      "[]" "[]" "[]"]
  have name: "p_name example_patient_csv = ''O'' @ [CHR 0x27] @ ''Brien, John''"
    by (simp add: example_patient_csv_def example_patient1_def)
  have n1: "comma \<in> set (p_name example_patient_csv)"
    by (simp add: example_patient_csv_def example_patient1_def comma_def)
  have n2: "dquote \<notin> set (p_name example_patient_csv)"
    by (simp add: example_patient_csv_def example_patient1_def dquote_def)
  have m: "dquote \<in> set (p_medicalHistory example_patient_csv)"
    by (simp add: example_patient_csv_def example_patient1_def)
  have "escapeCsvField (Some (p_name example_patient_csv))
          = [dquote] @ replace_quotes (p_name example_patient_csv) @ [dquote]"
    using t1 n1 by blast
  moreover have "replace_quotes (p_name example_patient_csv) = p_name example_patient_csv"
    using t1 n2 by blast
  ultimately have e1: "escapeCsvField (Some (p_name example_patient_csv))
       = [dquote] @ ''O'' @ [CHR 0x27] @ ''Brien, John'' @ [dquote]"
    by (simp add: name)
  have "escapeCsvField (Some (p_medicalHistory example_patient_csv))
          = [dquote] @ replace_quotes (p_medicalHistory example_patient_csv) @ [dquote]"
    using t2 m by blast
  moreover have "replace_quotes (p_medicalHistory example_patient_csv)
              = ''said '' @ [dquote, dquote] @ ''ok'' @ [dquote, dquote, LF] @ ''second line''"
    by (simp add: example_patient_csv_def example_patient1_def replace_quotes_def dquote_def LF_def)
  ultimately have e2: "escapeCsvField (Some (p_medicalHistory example_patient_csv))
       = [dquote] @ ''said '' @ [dquote, dquote] @ ''ok'' @ [dquote, dquote, LF]
           @ ''second line'' @ [dquote]"
    by simp
  have si: "show_int 40 = ''40''" "show_int 118 = ''118''" "show_int 76 = ''76''"
    by (simp_all add: show_int_def show_nat.simps digit_char_def)
  have g: "getAllPatients example_store_csv = [example_patient_csv]"
    by (simp add: getAllPatients_def example_store_csv_def example_store1_def)
  have "csv_parse (drop 3 (export_csv ?num ?day example_store_csv)) =
       [''Patient ID'', ''Name'', ''Age'', ''Phone'', ''Blood Sugar'', ''Systolic BP'',
        ''Diastolic BP'', ''Medical History'', ''Created Date'']
       # map (\<lambda>p. [p_patientId p, p_name p, show_int (p_age p), p_phone p,
                   ?num (p_bloodSugar p), show_int (p_bloodPressureSystolic p),
                   show_int (p_bloodPressureDiastolic p), p_medicalHistory p,
                   ?day (p_createdAt p)])
           (getAllPatients example_store_csv)"
    using t1 by blast
  then have p: "csv_parse (drop 3 (export_csv ?num ?day example_store_csv))
       = [[''Patient ID'', ''Name'', ''Age'', ''Phone'', ''Blood Sugar'', ''Systolic BP'',
           ''Diastolic BP'', ''Medical History'', ''Created Date''],
          [''PT-1700000000000'', ''O'' @ [CHR 0x27] @ ''Brien, John'', ''40'', ''555'', ''95'',
           ''118'', ''76'', ''said '' @ [dquote] @ ''ok'' @ [dquote, LF] @ ''second line'',
           ''1970-01-01'']]"
    by (simp add: g) (simp add: example_patient_csv_def example_patient1_def si)
  show ?thesis
    using n1 n2 m e1 e2 p by blast
qed

section \<open>Properties of the estimators and their fallbacks\<close>

subsection \<open>How a run of the script ends\<close>

lemma callPythonScript_exit_code:
  "code \<noteq> Some 0 \<Longrightarrow>
   callPythonScript JSON_parse (Closed code dataString errorString)
     = Rejected (''Python script failed: '' @ errorString)"
  by (simp add: callPythonScript_def)

lemma callPythonScript_unparsable:
  "JSON_parse dataString = None \<Longrightarrow>
   callPythonScript JSON_parse (Closed (Some 0) dataString errorString)
     = Rejected (''Failed to parse Python output: '' @ dataString)"
  by (simp add: callPythonScript_def)

lemma callPythonScript_failed:
  "code \<noteq> Some 0 \<or> JSON_parse dataString = None \<Longrightarrow>
   \<exists>error. callPythonScript JSON_parse (Closed code dataString errorString) = Rejected error"
  by (cases "code = Some 0") (simp_all add: callPythonScript_def)

lemma callPythonScript_parsed:
  "JSON_parse dataString = Some result \<Longrightarrow>
   callPythonScript JSON_parse (Closed (Some 0) dataString errorString) = Resolved result"
  by (simp add: callPythonScript_def)

lemma fallback_risk_bounds:
  "0 \<le> cardiovascularRisk (fallbackHealthPrediction input)"
  "cardiovascularRisk (fallbackHealthPrediction input) \<le> 100"
  "0 \<le> diabetesRisk (fallbackHealthPrediction input)"
  "diabetesRisk (fallbackHealthPrediction input) \<le> 90"
  "0 \<le> overallHealthScore (fallbackHealthPrediction input)"
  "overallHealthScore (fallbackHealthPrediction input) \<le> 100"
  by (simp_all add: fallbackHealthPrediction_def Let_def)

subsection \<open>Rounding to a double\<close>

lemma rne_bounds: "\<lfloor>x\<rfloor> \<le> rne x" "rne x \<le> \<lfloor>x\<rfloor> + 1"
  by (simp_all add: rne_def Let_def)

lemma rne_of_int: "rne (of_int n) = n"
  by (simp add: rne_def)

lemma rne_mono:
  assumes "x \<le> y"
  shows "rne x \<le> rne y"
proof (cases "\<lfloor>x\<rfloor> = \<lfloor>y\<rfloor>")
  case True
  then show ?thesis using assms by (simp add: rne_def Let_def)
next
  case False
  have "\<lfloor>x\<rfloor> \<le> \<lfloor>y\<rfloor>" using assms by (rule floor_mono)
  then have "\<lfloor>x\<rfloor> + 1 \<le> \<lfloor>y\<rfloor>" using False by simp
  then show ?thesis using rne_bounds(2)[of x] rne_bounds(1)[of y] by linarith
qed

lemma powr_m53: "(2::real) powr (- 53) = 1 / 9007199254740992"
  by (simp add: powr_minus powr_numeral)

lemma powr_m55: "(2::real) powr (- 55) = 1 / 36028797018963968"
  by (simp add: powr_minus powr_numeral)

lemma powr_53: "(2::real) powr 53 = 9007199254740992"
  by (simp add: powr_numeral)

lemma powr_55: "(2::real) powr 55 = 36028797018963968"
  by (simp add: powr_numeral)

lemma binade_exists:
  assumes "0 < x"
  shows "2 powr (of_int \<lfloor>log 2 x\<rfloor>) \<le> x \<and> x < 2 powr (of_int \<lfloor>log 2 x\<rfloor> + 1)"
  using floor_log_eq_powr_iff[of x 2 "\<lfloor>log 2 x\<rfloor>"] assms by simp

text \<open>
  Between \<open>2 powr e\<close> and \<open>2 powr (e + 1)\<close> the doubles are the multiples of
  \<open>2 powr (e - 52)\<close>.
\<close>

lemma fl_binade:
  assumes "2 powr (of_int e) \<le> x" "x < 2 powr (of_int e + 1)"
  shows "fl x = of_int (rne (x * 2 powr (52 - of_int e))) * 2 powr (of_int e - 52)"
proof -
  have "(0::real) < 2 powr (of_int e)" by simp
  then have p: "0 < x" using assms(1) by linarith
  have "\<lfloor>log 2 x\<rfloor> = e"
    using p assms by (simp add: floor_log_eq_powr_iff)
  then show ?thesis using p by (simp add: fl_def Let_def)
qed

lemma fl_nonneg:
  assumes "0 \<le> x"
  shows "0 \<le> fl x"
proof (cases "x = 0")
  case True
  then show ?thesis by (simp add: fl_def)
next
  case False
  define e where "e = \<lfloor>log 2 \<bar>x\<bar>\<rfloor>"
  have "0 \<le> x * 2 powr (52 - of_int e)" using assms by simp
  then have "0 \<le> \<lfloor>x * 2 powr (52 - of_int e)\<rfloor>" by simp
  then have "0 \<le> rne (x * 2 powr (52 - of_int e))"
    using rne_bounds(1)[of "x * 2 powr (52 - of_int e)"] by linarith
  then show ?thesis using False by (simp add: fl_def Let_def e_def)
qed

lemma fl_binade_upper:
  assumes "2 powr (of_int e) \<le> x" "x < 2 powr (of_int e + 1)"
  shows "fl x \<le> 2 powr (of_int e + 1)"
proof -
  have e1: "(2::real) powr (of_int e + 1) * 2 powr (52 - of_int e) = 2 powr 53"
    unfolding powr_add[symmetric] by simp
  have e2: "(2::real) powr 53 * 2 powr (of_int e - 52) = 2 powr (of_int e + 1)"
    unfolding powr_add[symmetric] by (simp add: add.commute)
  have "x * 2 powr (52 - of_int e) \<le> 2 powr (of_int e + 1) * 2 powr (52 - of_int e)"
    using assms(2) by (simp add: mult_right_mono)
  then have "x * 2 powr (52 - of_int e) \<le> of_int 9007199254740992"
    unfolding e1 powr_53 by simp
  then have "rne (x * 2 powr (52 - of_int e)) \<le> rne (of_int 9007199254740992)"
    by (rule rne_mono)
  then have r: "real_of_int (rne (x * 2 powr (52 - of_int e))) \<le> 2 powr 53"
    unfolding rne_of_int powr_53 by simp
  have "fl x = of_int (rne (x * 2 powr (52 - of_int e))) * 2 powr (of_int e - 52)"
    using assms by (rule fl_binade)
  also have "\<dots> \<le> 2 powr 53 * 2 powr (of_int e - 52)"
    using r by (rule mult_right_mono) simp
  finally show ?thesis unfolding e2 .
qed

text \<open>The three literals of \<open>fallbackImageAnalysis\<close>.\<close>

lemma fl_0_2: "fl 0.2 = 3602879701896397 / 18014398509481984"
  using fl_binade[of "-3" "0.2"] by (simp add: powr_minus powr_numeral rne_def Let_def)

lemma fl_0_85: "fl 0.85 = 7656119366529843 / 9007199254740992"
  using fl_binade[of "-1" "0.85"] by (simp add: powr_minus powr_numeral rne_def Let_def)

lemma fl_0_15: "fl 0.15 = 5404319552844595 / 36028797018963968"
  using fl_binade[of "-3" "0.15"] by (simp add: powr_minus powr_numeral rne_def Let_def)

text \<open>
  The confidence for the draws 0.5 and 0.25, which JavaScript prints as
  \<open>0.9249999999999999\<close> and \<open>0.8875\<close>, and for the largest draw, where the sum is half
  way between two doubles and rounds to the even one, 1.
\<close>

lemma confidence_draw_half:
  "fl (fl 0.85 + fl (0.5 * fl 0.15)) = 8331659310635417 / 9007199254740992"
proof -
  have p: "0.5 * fl 0.15 = 5404319552844595 / 72057594037927936"
    unfolding fl_0_15 by simp
  have a: "fl (0.5 * fl 0.15) = 5404319552844595 / 72057594037927936"
    unfolding p using fl_binade[of "-4" "5404319552844595 / 72057594037927936"]
    by (simp add: powr_minus powr_numeral rne_def Let_def)
  have s: "fl 0.85 + fl (0.5 * fl 0.15) = 66653274485083339 / 72057594037927936"
    unfolding a fl_0_85 by simp
  show ?thesis
    unfolding s using fl_binade[of "-1" "66653274485083339 / 72057594037927936"]
    by (simp add: powr_minus powr_numeral rne_def Let_def)
qed

lemma confidence_draw_quarter:
  "fl (fl 0.85 + fl (0.25 * fl 0.15)) = 3996944669291315 / 4503599627370496"
proof -
  have p: "0.25 * fl 0.15 = 5404319552844595 / 144115188075855872"
    unfolding fl_0_15 by simp
  have a: "fl (0.25 * fl 0.15) = 5404319552844595 / 144115188075855872"
    unfolding p using fl_binade[of "-5" "5404319552844595 / 144115188075855872"]
    by (simp add: powr_minus powr_numeral rne_def Let_def)
  have s: "fl 0.85 + fl (0.25 * fl 0.15) = 127902229417322083 / 144115188075855872"
    unfolding a fl_0_85 by simp
  show ?thesis
    unfolding s using fl_binade[of "-1" "127902229417322083 / 144115188075855872"]
    by (simp add: powr_minus powr_numeral rne_def Let_def)
qed

lemma confidence_draw_largest:
  "fl (fl 0.85 + fl ((1 - 1 / 2 ^ 53) * fl 0.15)) = 1"
proof -
  have p: "(1 - 1 / 2 ^ 53) * fl 0.15
             = 48677783048764001811713999293645 / 324518553658426726783156020576256"
    unfolding fl_0_15 by simp
  have a: "fl ((1 - 1 / 2 ^ 53) * fl 0.15) = 5404319552844594 / 36028797018963968"
    unfolding p
    using fl_binade[of "-3" "48677783048764001811713999293645 / 324518553658426726783156020576256"]
    by (simp add: powr_minus powr_numeral rne_def Let_def)
  have s: "fl 0.85 + fl ((1 - 1 / 2 ^ 53) * fl 0.15) = 18014398509481983 / 18014398509481984"
    unfolding a fl_0_85 by simp
  show ?thesis
    unfolding s using fl_binade[of "-1" "18014398509481983 / 18014398509481984"]
    by (simp add: powr_minus powr_numeral rne_def Let_def)
qed

text \<open>The range of the confidence, for every draw.\<close>

lemma fl_product_le:
  assumes "0 \<le> x" "x \<le> 5404319552844595 / 36028797018963968"
  shows "fl x \<le> 5404319552844595 / 36028797018963968"
proof (cases "x = 0")
  case True
  then show ?thesis by (simp add: fl_def)
next
  case False
  then have p: "0 < x" using assms(1) by simp
  define e where "e = \<lfloor>log 2 x\<rfloor>"
  have b: "2 powr (of_int e) \<le> x" "x < 2 powr (of_int e + 1)"
    using binade_exists[OF p] by (simp_all add: e_def)
  have m2: "(2::real) powr (- 2) = 1 / 4" by (simp add: powr_minus powr_numeral)
  have "2 powr (real_of_int e) < 1 / 4" using b(1) assms(2) by linarith
  then have "2 powr (real_of_int e) < (2::real) powr (- 2)" unfolding m2 .
  then have "real_of_int e < - 2" by simp
  then have e3: "e \<le> - 3" by linarith
  show ?thesis
  proof (cases "e = - 3")
    case True
    have "x * 2 powr 55 \<le> of_int 5404319552844595"
      unfolding powr_55 using assms(2) by simp
    then have "rne (x * 2 powr 55) \<le> rne (of_int 5404319552844595)"
      by (rule rne_mono)
    then have r: "real_of_int (rne (x * 2 powr 55)) \<le> 5404319552844595"
      unfolding rne_of_int by simp
    have "fl x = of_int (rne (x * 2 powr 55)) * 2 powr (- 55)"
      using fl_binade[OF b] True by simp
    then show ?thesis unfolding powr_m55 using r by simp
  next
    case False
    then have "e + 1 \<le> - 3" using e3 by simp
    then have "real_of_int e + 1 \<le> - 3" by linarith
    then have "2 powr (of_int e + 1) \<le> (2::real) powr (- 3)" by simp
    moreover have "(2::real) powr (- 3) = 1 / 8" by (simp add: powr_minus powr_numeral)
    ultimately have "fl x \<le> 1 / 8"
      using fl_binade_upper[OF b] by linarith
    then show ?thesis by simp
  qed
qed

lemma fl_half_binade_bounds:
  assumes "7656119366529843 / 9007199254740992 \<le> s" "s \<le> 36028797018963967 / 36028797018963968"
  shows "7656119366529843 / 9007199254740992 \<le> fl s \<and> fl s \<le> 1"
proof -
  have b: "2 powr (of_int (- 1)) \<le> s" "s < 2 powr (of_int (- 1) + 1)"
    using assms by (simp_all add: powr_minus)
  have f: "fl s = of_int (rne (s * 2 powr 53)) * 2 powr (- 53)"
    using fl_binade[OF b] by simp
  have "of_int 7656119366529843 \<le> s * 2 powr 53"
    unfolding powr_53 using assms(1) by simp
  then have "rne (of_int 7656119366529843) \<le> rne (s * 2 powr 53)" by (rule rne_mono)
  then have lo: "7656119366529843 \<le> real_of_int (rne (s * 2 powr 53))"
    unfolding rne_of_int by simp
  have "s * 2 powr 53 \<le> of_int 9007199254740992"
    unfolding powr_53 using assms(2) by simp
  then have "rne (s * 2 powr 53) \<le> rne (of_int 9007199254740992)" by (rule rne_mono)
  then have hi: "real_of_int (rne (s * 2 powr 53)) \<le> 9007199254740992"
    unfolding rne_of_int by simp
  show ?thesis
    unfolding f powr_m53 using lo hi by simp
qed

lemma confidence_bounds:
  assumes "0 \<le> r" "r \<le> 1"
  shows "7656119366529843 / 9007199254740992 \<le> fl (fl 0.85 + fl (r * fl 0.15))
         \<and> fl (fl 0.85 + fl (r * fl 0.15)) \<le> 1"
proof -
  have x0: "0 \<le> r * fl 0.15" unfolding fl_0_15 using assms(1) by simp
  have x1: "r * fl 0.15 \<le> 5404319552844595 / 36028797018963968"
    unfolding fl_0_15 using assms(2) by simp
  have p0: "0 \<le> fl (r * fl 0.15)" using x0 by (rule fl_nonneg)
  have p1: "fl (r * fl 0.15) \<le> 5404319552844595 / 36028797018963968"
    using x0 x1 by (rule fl_product_le)
  have s0: "7656119366529843 / 9007199254740992 \<le> fl 0.85 + fl (r * fl 0.15)"
    unfolding fl_0_85 using p0 by simp
  have s1: "fl 0.85 + fl (r * fl 0.15) \<le> 36028797018963967 / 36028797018963968"
    unfolding fl_0_85 using p1 by simp
  show ?thesis using s0 s1 by (rule fl_half_binade_bounds)
qed

subsection \<open>The image fallback\<close>

lemma fallback_image_fields:
  "abnormalityDetected (fallbackImageAnalysis r1 r2 f ty) = (r2 < fl 0.2)"
  "confidence (fallbackImageAnalysis r1 r2 f ty) = fl (fl 0.85 + fl (r1 * fl 0.15))"
  by (simp_all add: fallbackImageAnalysis_def Let_def)

lemma fallback_image_filename:
  "fallbackImageAnalysis r1 r2 f ty = fallbackImageAnalysis r1 r2 f' ty"
  by (simp add: fallbackImageAnalysis_def)

lemma fallback_image_findings:
  "abnormalityDetected (fallbackImageAnalysis r1 r2 f ty)
     = abnormalityDetected (fallbackImageAnalysis r1' r2' f' ty) \<Longrightarrow>
   findings (fallbackImageAnalysis r1 r2 f ty) = findings (fallbackImageAnalysis r1' r2' f' ty)
   \<and> ia_recommendations (fallbackImageAnalysis r1 r2 f ty)
       = ia_recommendations (fallbackImageAnalysis r1' r2' f' ty)"
  unfolding fallback_image_fields by (simp add: fallbackImageAnalysis_def Let_def)

lemma fallback_image_xray_abnormal:
  "fallbackImageAnalysis 0.5 0.125 ''scan.png'' ''xray'' =
     \<lparr>abnormalityDetected = True, confidence = 8331659310635417 / 9007199254740992,
      findings = ''Mild opacity detected in lower lung field. May indicate early infection or inflammation.'',
      ia_recommendations = [''Recommend follow-up CT scan'', ''Consider antibiotic treatment'',
        ''Monitor symptoms closely'']\<rparr>"
proof -
  have a: "(0.125::real) < fl 0.2" unfolding fl_0_2 by simp
  show ?thesis
    unfolding fallbackImageAnalysis_def Let_def confidence_draw_half using a by simp
qed

lemma fallback_image_xray_normal:
  "fallbackImageAnalysis 0.25 0.5 ''scan.png'' ''xray'' =
     \<lparr>abnormalityDetected = False, confidence = 3996944669291315 / 4503599627370496,
      findings = ''No significant abnormalities detected. Normal anatomical structures observed.'',
      ia_recommendations = [''Continue routine monitoring'', ''No immediate action required'']\<rparr>"
proof -
  have a: "\<not> (0.5::real) < fl 0.2" unfolding fl_0_2 by simp
  show ?thesis
    unfolding fallbackImageAnalysis_def Let_def confidence_draw_quarter using a by simp
qed

subsection \<open>What a failed run of the script is replaced by\<close>




end
